theory Spec2Isabelle
  imports Complex_Main
begin

section \<open>Python values, errors and containers\<close>

text \<open>
  The component is Python. Exceptions are values of \<open>py_error\<close>, and a computation
  that may raise returns \<open>py_error + 'a\<close> with \<open>Inl\<close> for the exception. Python
  floats are modelled by the reals: no NaN, no infinities and no binary representation
  error. Strings are ASCII character lists. The indices that the sensors store come from
  \<open>enumerate\<close>, so they are natural numbers.
\<close>

datatype py_error = TypeError | KeyError | IndexError | ZeroDivisionError

type_synonym 'a result = "py_error + 'a"

definition result_bind :: "'a result \<Rightarrow> ('a \<Rightarrow> 'b result) \<Rightarrow> 'b result" where
  "result_bind r f = (case r of Inl e \<Rightarrow> Inl e | Inr x \<Rightarrow> f x)"

text \<open>A dynamically typed value: what a property typed \<open>Any\<close> may return.\<close>

datatype py_any = PyNone | PyBool bool | PyInt int | PyFloat real | PyStr string

definition opt_float :: "real option \<Rightarrow> py_any" where
  "opt_float x = (case x of None \<Rightarrow> PyNone | Some v \<Rightarrow> PyFloat v)"

text \<open>Truthiness of an optional float: \<open>None\<close> and \<open>0.0\<close> are false.\<close>

definition truthy :: "real option \<Rightarrow> bool" where
  "truthy x = (case x of None \<Rightarrow> False | Some v \<Rightarrow> v \<noteq> 0)"

text \<open>\<open>xs[i]\<close> for a list and a non-negative index.\<close>

definition list_getitem :: "'a list \<Rightarrow> nat \<Rightarrow> 'a result" where
  "list_getitem xs i = (if i < length xs then Inr (xs ! i) else Inl IndexError)"

text \<open>
  A dict is an association list in insertion order; its keys are distinct. \<open>d[k]\<close>
  raises KeyError on a missing key, \<open>k in d\<close> tests membership, \<open>d.get(k)\<close>
  gives \<open>None\<close> on a missing key, and \<open>a | b\<close> is the union in which \<open>b\<close> wins.
\<close>

type_synonym ('k, 'v) py_dict = "('k \<times> 'v) list"

definition dict_getitem :: "('k, 'v) py_dict \<Rightarrow> 'k \<Rightarrow> 'v result" where
  "dict_getitem d k = (case map_of d k of None \<Rightarrow> Inl KeyError | Some v \<Rightarrow> Inr v)"

definition dict_contains :: "'k \<Rightarrow> ('k, 'v) py_dict \<Rightarrow> bool" where
  "dict_contains k d = (map_of d k \<noteq> None)"

definition dict_union :: "('k, 'v) py_dict \<Rightarrow> ('k, 'v) py_dict \<Rightarrow> ('k, 'v) py_dict" where
  "dict_union a b =
     map (\<lambda>(k, v). (k, case map_of b k of None \<Rightarrow> v | Some w \<Rightarrow> w)) a
     @ filter (\<lambda>(k, v). map_of a k = None) b"

text \<open>
  The built-in \<open>round(x, n)\<close> on the exact value: to the nearest multiple of
  \<open>10 ^ -n\<close>, a tie going to the even neighbour.
\<close>

definition round_half_even :: "real \<Rightarrow> int" where
  "round_half_even x =
     (let f = \<lfloor>x\<rfloor>; d = x - of_int f
      in if d < 1 / 2 then f else if 1 / 2 < d then f + 1 else if even f then f else f + 1)"

definition py_round :: "real \<Rightarrow> nat \<Rightarrow> real" where
  "py_round x n = of_int (round_half_even (x * 10 ^ n)) / 10 ^ n"

text \<open>
  The arithmetic of doubles rounds its results: the quotient of two doubles is the
  double nearest to their exact quotient, and how the built-in \<open>sum\<close> adds doubles
  depends on the interpreter. The sum of a list of doubles and the quotient of two
  doubles are therefore parameters of the model; whatever holds of the model holds for
  every such arithmetic. Comparison, truth value and \<open>round\<close> are exact.
\<close>

record float_arith =
  float_sum :: "real list \<Rightarrow> real"
  float_truediv :: "real \<Rightarrow> real \<Rightarrow> real"

text \<open>True division \<open>a / b\<close> of doubles, which raises on a zero divisor.\<close>

definition py_truediv :: "float_arith \<Rightarrow> real \<Rightarrow> real \<Rightarrow> real result" where
  "py_truediv fl a b = (if b = 0 then Inl ZeroDivisionError else Inr (float_truediv fl a b))"

text \<open>The built-in \<open>sum\<close>: the sum of the empty list is the integer 0.\<close>

definition py_sum :: "float_arith \<Rightarrow> real list \<Rightarrow> real" where
  "py_sum fl xs = (if xs = [] then 0 else float_sum fl xs)"

subsection \<open>String formatting\<close>

fun str_nat :: "nat \<Rightarrow> string" where
  "str_nat n =
     (if n < 10 then [char_of (48 + n)] else str_nat (n div 10) @ [char_of (48 + n mod 10)])"

definition str_int :: "int \<Rightarrow> string" where
  "str_int i = (if i < 0 then CHR ''-'' # str_nat (nat (- i)) else str_nat (nat i))"

definition is_lower :: "char \<Rightarrow> bool" where
  "is_lower c = (97 \<le> (of_char c :: nat) \<and> (of_char c :: nat) \<le> 122)"

definition is_upper :: "char \<Rightarrow> bool" where
  "is_upper c = (65 \<le> (of_char c :: nat) \<and> (of_char c :: nat) \<le> 90)"

definition to_upper :: "char \<Rightarrow> char" where
  "to_upper c = (if is_lower c then char_of ((of_char c :: nat) - 32) else c)"

definition to_lower :: "char \<Rightarrow> char" where
  "to_lower c = (if is_upper c then char_of ((of_char c :: nat) + 32) else c)"

text \<open>\<open>s.replace(a, b)\<close> for single characters.\<close>

definition replace_char :: "char \<Rightarrow> char \<Rightarrow> string \<Rightarrow> string" where
  "replace_char a b s = map (\<lambda>c. if c = a then b else c) s"

text \<open>
  \<open>s.title()\<close>: a letter that follows a letter is lowered, any other letter is
  raised. The flag says whether the previous character was a letter.
\<close>

fun title_from :: "bool \<Rightarrow> string \<Rightarrow> string" where
  "title_from previous_is_cased [] = []"
| "title_from previous_is_cased (c # s) =
     (if is_lower c then (if previous_is_cased then c else to_upper c) # title_from True s
      else if is_upper c then (if previous_is_cased then to_lower c else c) # title_from True s
      else c # title_from False s)"

definition title :: "string \<Rightarrow> string" where
  "title s = title_from False s"

section \<open>The data of the client library\<close>

text \<open>
  The models of the client library, with the fields this component reads. A field
  that the component tests against \<open>None\<close> is an option.
\<close>

record PyEnum =
  display_value :: string

record Home =
  Home_name :: string
  Home_nomenclature :: string
  Home_firmware_version :: string
  Home_extra_fields :: "(string, py_any) py_dict"

record Device =
  Device_name :: string
  Device_device_uuid :: string
  Device_name_display :: string
  Device_brand_name :: string
  Device_product_name_display :: string
  Device_operational_data :: "(string, (string, py_any) py_dict) py_dict"

record ZoneHeating =
  ZoneHeating_operation_mode_heating :: PyEnum

record Zone =
  Zone_name :: string
  Zone_index :: int
  Zone_is_active :: bool
  Zone_associated_circuit_index :: "int option"
  Zone_current_room_temperature :: "real option"
  Zone_current_room_humidity :: "real option"
  Zone_desired_room_temperature_setpoint_heating :: "real option"
  Zone_desired_room_temperature_setpoint_cooling :: "real option"
  Zone_desired_room_temperature_setpoint :: "real option"
  Zone_heating :: ZoneHeating
  Zone_heating_state :: PyEnum
  Zone_current_special_function :: PyEnum

record Circuit =
  Circuit_index :: int
  Circuit_circuit_state :: string
  Circuit_current_circuit_flow_temperature :: "real option"
  Circuit_heating_curve :: "real option"
  Circuit_min_flow_temperature_setpoint :: "real option"
  Circuit_extra_fields :: "(string, py_any) py_dict"

record DomesticHotWater =
  DomesticHotWater_index :: int
  DomesticHotWater_current_dhw_temperature :: "real option"
  DomesticHotWater_tapping_setpoint :: "real option"
  DomesticHotWater_operation_mode_dhw :: PyEnum
  DomesticHotWater_current_special_function :: PyEnum

record System =
  System_id :: string
  System_outdoor_temperature :: "real option"
  System_water_pressure :: "real option"
  System_brand_name :: string
  System_home :: Home
  System_extra_fields :: "(string, py_any) py_dict"
  System_devices :: "Device list"
  System_zones :: "Zone list"
  System_circuits :: "Circuit list"
  System_domestic_hot_water :: "DomesticHotWater list"

record DeviceDataBucket =
  DeviceDataBucket_value :: "real option"

record DeviceData =
  DeviceData_device :: "Device option"
  DeviceData_data :: "DeviceDataBucket list"
  DeviceData_energy_type :: "string option"
  DeviceData_operation_mode :: string

text \<open>
  One entry of the daily-data coordinator's dict: the value stored under a system id,
  itself a dict with the keys \<open>devices_data\<close> and \<open>home_name\<close>.
\<close>

record SystemDevices =
  devices_data :: "DeviceData list list"
  home_name :: string

section \<open>The coordinators\<close>

text \<open>
  The two coordinators are the state the component reads. The cached \<open>data\<close>
  attribute of a coordinator is \<open>None\<close> until the first poll. The record is
  extensible: its \<open>more\<close> part stands for everything else the host holds.
\<close>

record hass =
  system_coordinator_data :: "System list option"
  daily_data_coordinator_data :: "(string, SystemDevices) py_dict option"

section \<open>The sensor entities\<close>

text \<open>
  One constructor for each concrete sensor class, with the attributes its
  \<open>__init__\<close> stores. The coordinator a sensor refers to is the one in the
  \<open>hass\<close> state, which every property takes as an argument. A DataSensor also keeps
  the unit its constructor selected (\<open>_attr_native_unit_of_measurement\<close>).
\<close>

datatype sensor =
    SystemOutdoorTemperatureSensor nat
  | SystemWaterPressureSensor nat
  | HomeEntity nat
  | SystemDeviceWaterPressureSensor nat nat
  | ZoneDesiredRoomTemperatureSetpointSensor nat nat
  | ZoneCurrentRoomTemperatureSensor nat nat
  | ZoneHumiditySensor nat nat
  | ZoneHeatingOperatingModeSensor nat nat
  | ZoneHeatingStateSensor nat nat
  | ZoneCurrentSpecialFunctionSensor nat nat
  | CircuitStateSensor nat nat
  | CircuitFlowTemperatureSensor nat nat
  | CircuitHeatingCurveSensor nat nat
  | CircuitMinFlowTemperatureSetpointSensor nat nat
  | DomesticHotWaterTankTemperatureSensor nat nat
  | DomesticHotWaterSetPointSensor nat nat
  | DomesticHotWaterOperationModeSensor nat nat
  | DomesticHotWaterCurrentSpecialFunctionSensor nat nat
  | DataSensor string nat nat "string option"
  | EfficiencySensor string "nat option"

section \<open>create_system_sensors\<close>

text \<open>
  Each \<open>for ... in enumerate(...)\<close> loop is a fold over the enumerated list that
  threads the list \<open>sensors\<close>; \<open>sensors.append(x)\<close> is \<open>sensors @ [x]\<close>.
\<close>

definition device_loop :: "nat \<Rightarrow> nat \<times> Device \<Rightarrow> sensor list \<Rightarrow> sensor list" where
  "device_loop index = (\<lambda>(device_index, device) sensors.
     if dict_contains ''water_pressure'' (Device_operational_data device)
     then sensors @ [SystemDeviceWaterPressureSensor index device_index]
     else sensors)"

definition zone_loop :: "nat \<Rightarrow> nat \<times> Zone \<Rightarrow> sensor list \<Rightarrow> sensor list" where
  "zone_loop index = (\<lambda>(zone_index, zone) sensors.
     let sensors = sensors @ [ZoneDesiredRoomTemperatureSetpointSensor index zone_index];
         sensors = (if Zone_current_room_temperature zone \<noteq> None
                    then sensors @ [ZoneCurrentRoomTemperatureSensor index zone_index]
                    else sensors);
         sensors = (if Zone_current_room_humidity zone \<noteq> None
                    then sensors @ [ZoneHumiditySensor index zone_index]
                    else sensors);
         sensors = sensors @ [ZoneHeatingOperatingModeSensor index zone_index];
         sensors = sensors @ [ZoneHeatingStateSensor index zone_index];
         sensors = sensors @ [ZoneCurrentSpecialFunctionSensor index zone_index]
     in sensors)"

definition circuit_loop :: "nat \<Rightarrow> nat \<times> Circuit \<Rightarrow> sensor list \<Rightarrow> sensor list" where
  "circuit_loop index = (\<lambda>(circuit_index, circuit) sensors.
     let sensors = sensors @ [CircuitStateSensor index circuit_index];
         sensors = (if Circuit_current_circuit_flow_temperature circuit \<noteq> None
                    then sensors @ [CircuitFlowTemperatureSensor index circuit_index]
                    else sensors);
         sensors = (if Circuit_heating_curve circuit \<noteq> None
                    then sensors @ [CircuitHeatingCurveSensor index circuit_index]
                    else sensors);
         sensors = (if Circuit_min_flow_temperature_setpoint circuit \<noteq> None
                    then sensors @ [CircuitMinFlowTemperatureSetpointSensor index circuit_index]
                    else sensors)
     in sensors)"

definition dhw_loop :: "nat \<Rightarrow> nat \<times> DomesticHotWater \<Rightarrow> sensor list \<Rightarrow> sensor list" where
  "dhw_loop index = (\<lambda>(dhw_index, dhw) sensors.
     let sensors = (if truthy (DomesticHotWater_current_dhw_temperature dhw)
                    then sensors @ [DomesticHotWaterTankTemperatureSensor index dhw_index]
                    else sensors);
         sensors = sensors @ [DomesticHotWaterSetPointSensor index dhw_index];
         sensors = sensors @ [DomesticHotWaterOperationModeSensor index dhw_index];
         sensors = sensors @ [DomesticHotWaterCurrentSpecialFunctionSensor index dhw_index]
     in sensors)"

definition system_loop :: "nat \<times> System \<Rightarrow> sensor list \<Rightarrow> sensor list" where
  "system_loop = (\<lambda>(index, system) sensors.
     let sensors = (if System_outdoor_temperature system \<noteq> None
                    then sensors @ [SystemOutdoorTemperatureSensor index]
                    else sensors);
         sensors = (if System_water_pressure system \<noteq> None
                    then sensors @ [SystemWaterPressureSensor index]
                    else sensors);
         sensors = sensors @ [HomeEntity index];
         sensors = fold (device_loop index) (enumerate 0 (System_devices system)) sensors;
         sensors = fold (zone_loop index) (enumerate 0 (System_zones system)) sensors;
         sensors = fold (circuit_loop index) (enumerate 0 (System_circuits system)) sensors;
         sensors = fold (dhw_loop index) (enumerate 0 (System_domestic_hot_water system)) sensors
     in sensors)"

text \<open>\<open>not system_coordinator.data\<close> holds for \<open>None\<close> and for the empty list.\<close>

definition create_system_sensors :: "'a hass_scheme \<Rightarrow> sensor list" where
  "create_system_sensors h =
     (case system_coordinator_data h of
        None \<Rightarrow> []
      | Some data \<Rightarrow> if data = [] then [] else fold system_loop (enumerate 0 data) [])"

section \<open>Properties of the system sensors\<close>

text \<open>
  The constant \<open>DOMAIN\<close> and the helpers \<open>get_name_prefix\<close> and
  \<open>get_unique_id_prefix\<close> belong to modules of the component that are not part
  of the verified file; they are parameters of the model. The record of the parameters
  also carries the arithmetic of doubles.
\<close>

record utils =
  DOMAIN :: string
  get_name_prefix :: "string \<Rightarrow> string"
  get_unique_id_prefix :: "string \<Rightarrow> string"
  arithmetic :: float_arith

text \<open>
  A DeviceInfo is a dict with some of the keys \<open>identifiers\<close>, \<open>name\<close>,
  \<open>manufacturer\<close>, \<open>model\<close> and \<open>sw_version\<close>; \<open>identifiers\<close> is a set
  of pairs, here a list.
\<close>

record DeviceInfo =
  identifiers :: "(string \<times> string) list"
  DeviceInfo_name :: "string option"
  manufacturer :: "string option"
  model :: "string option"
  sw_version :: "string option"

definition identifiers_only :: "(string \<times> string) list \<Rightarrow> DeviceInfo" where
  "identifiers_only ids =
     \<lparr>identifiers = ids, DeviceInfo_name = None, manufacturer = None, model = None,
      sw_version = None\<rparr>"

text \<open>
  The property \<open>system\<close>, which every base class of a system sensor defines with the
  same body: \<open>self.coordinator.data[index]\<close>. Subscripting \<open>None\<close> raises TypeError.
\<close>

definition system :: "'a hass_scheme \<Rightarrow> nat \<Rightarrow> System result" where
  "system h index =
     (case system_coordinator_data h of
        None \<Rightarrow> Inl TypeError
      | Some data \<Rightarrow> list_getitem data index)"

definition zone :: "'a hass_scheme \<Rightarrow> nat \<Rightarrow> nat \<Rightarrow> Zone result" where
  "zone h system_index zone_index =
     result_bind (system h system_index) (\<lambda>s. list_getitem (System_zones s) zone_index)"

definition circuit :: "'a hass_scheme \<Rightarrow> nat \<Rightarrow> nat \<Rightarrow> Circuit result" where
  "circuit h system_index circuit_index =
     result_bind (system h system_index) (\<lambda>s. list_getitem (System_circuits s) circuit_index)"

definition domestic_hot_water :: "'a hass_scheme \<Rightarrow> nat \<Rightarrow> nat \<Rightarrow> DomesticHotWater result" where
  "domestic_hot_water h system_index dhw_index =
     result_bind (system h system_index)
       (\<lambda>s. list_getitem (System_domestic_hot_water s) dhw_index)"

definition system_device :: "'a hass_scheme \<Rightarrow> nat \<Rightarrow> nat \<Rightarrow> Device result" where
  "system_device h system_index device_index =
     result_bind (system h system_index) (\<lambda>s. list_getitem (System_devices s) device_index)"

definition circuit_name_suffix :: "'a hass_scheme \<Rightarrow> nat \<Rightarrow> nat \<Rightarrow> string result" where
  "circuit_name_suffix h system_index zone_index =
     result_bind (zone h system_index zone_index) (\<lambda>z.
       case Zone_associated_circuit_index z of
         None \<Rightarrow> Inr []
       | Some c \<Rightarrow> Inr ('' of Circuit '' @ str_int c))"

text \<open>
  The names of the zone, circuit and hot water sensors are the name prefix of the home,
  a label, and the zone's name or the circuit's or hot water unit's own index.
\<close>

definition zone_sensor_name ::
  "utils \<Rightarrow> 'a hass_scheme \<Rightarrow> string \<Rightarrow> nat \<Rightarrow> nat \<Rightarrow> string option result" where
  "zone_sensor_name u h label system_index zone_index =
     result_bind (system h system_index) (\<lambda>s.
     result_bind (zone h system_index zone_index) (\<lambda>z.
       Inr (Some (get_name_prefix u (Home_name (System_home s)) @ label @ Zone_name z))))"

definition circuit_sensor_name ::
  "utils \<Rightarrow> 'a hass_scheme \<Rightarrow> string \<Rightarrow> nat \<Rightarrow> nat \<Rightarrow> string option result" where
  "circuit_sensor_name u h label system_index circuit_index =
     result_bind (system h system_index) (\<lambda>s.
     result_bind (circuit h system_index circuit_index) (\<lambda>c.
       Inr (Some (get_name_prefix u (Home_name (System_home s)) @ label
                  @ str_int (Circuit_index c)))))"

definition dhw_sensor_name ::
  "utils \<Rightarrow> 'a hass_scheme \<Rightarrow> string \<Rightarrow> nat \<Rightarrow> nat \<Rightarrow> string option result" where
  "dhw_sensor_name u h label system_index dhw_index =
     result_bind (system h system_index) (\<lambda>s.
     result_bind (domestic_hot_water h system_index dhw_index) (\<lambda>d.
       Inr (Some (get_name_prefix u (Home_name (System_home s)) @ label
                  @ str_int (DomesticHotWater_index d)))))"

text \<open>The unique ids of the system sensors: the prefix of the system id and a suffix.\<close>

definition system_unique_id ::
  "utils \<Rightarrow> 'a hass_scheme \<Rightarrow> nat \<Rightarrow> string \<Rightarrow> string option result" where
  "system_unique_id u h system_index suffix =
     result_bind (system h system_index) (\<lambda>s.
       Inr (Some (get_unique_id_prefix u (System_id s) @ suffix)))"

section \<open>Properties of the daily data sensors\<close>

text \<open>\<open>self.coordinator.data[self.system_id]\<close> on the daily-data coordinator.\<close>

definition daily_data_getitem :: "'a hass_scheme \<Rightarrow> string \<Rightarrow> SystemDevices result" where
  "daily_data_getitem h system_id =
     (case daily_data_coordinator_data h of
        None \<Rightarrow> Inl TypeError
      | Some data \<Rightarrow> dict_getitem data system_id)"

definition ENERGY_WATT_HOUR :: string where
  "ENERGY_WATT_HOUR = ''Wh''"

definition DATA_UNIT_MAP :: "(string, string) py_dict" where
  "DATA_UNIT_MAP =
     [(''CONSUMED_ELECTRICAL_ENERGY'', ENERGY_WATT_HOUR),
      (''EARNED_ENVIRONMENT_ENERGY'', ENERGY_WATT_HOUR),
      (''HEAT_GENERATED'', ENERGY_WATT_HOUR),
      (''CONSUMED_PRIMARY_ENERGY'', ENERGY_WATT_HOUR),
      (''EARNED_SOLAR_ENERGY'', ENERGY_WATT_HOUR)]"

subsection \<open>DataSensor\<close>

definition device_data ::
  "'a hass_scheme \<Rightarrow> string \<Rightarrow> nat \<Rightarrow> nat \<Rightarrow> DeviceData option result" where
  "device_data h system_id de_index da_index =
     result_bind (daily_data_getitem h system_id) (\<lambda>sd.
       if length (devices_data sd) \<le> de_index then Inr None
       else if length (devices_data sd ! de_index) \<le> da_index then Inr None
       else Inr (Some (devices_data sd ! de_index ! da_index)))"

definition DataSensor_home_name :: "'a hass_scheme \<Rightarrow> string \<Rightarrow> string result" where
  "DataSensor_home_name h system_id =
     result_bind (daily_data_getitem h system_id) (\<lambda>sd. Inr (home_name sd))"

definition DataSensor_device ::
  "'a hass_scheme \<Rightarrow> string \<Rightarrow> nat \<Rightarrow> nat \<Rightarrow> Device option result" where
  "DataSensor_device h system_id de_index da_index =
     result_bind (device_data h system_id de_index da_index) (\<lambda>dd.
       case dd of None \<Rightarrow> Inr None | Some d \<Rightarrow> Inr (DeviceData_device d))"

definition data_bucket ::
  "'a hass_scheme \<Rightarrow> string \<Rightarrow> nat \<Rightarrow> nat \<Rightarrow> DeviceDataBucket option result" where
  "data_bucket h system_id de_index da_index =
     result_bind (device_data h system_id de_index da_index) (\<lambda>dd.
       case dd of
         None \<Rightarrow> Inr None
       | Some d \<Rightarrow>
           (let data = [b. b \<leftarrow> DeviceData_data d, DeviceDataBucket_value b \<noteq> None]
            in if length data > 0 then Inr (Some (last data)) else Inr None))"

definition DataSensor_name ::
  "utils \<Rightarrow> 'a hass_scheme \<Rightarrow> string \<Rightarrow> nat \<Rightarrow> nat \<Rightarrow> string option result" where
  "DataSensor_name u h system_id de_index da_index =
     result_bind (DataSensor_device h system_id de_index da_index) (\<lambda>dev.
     result_bind (device_data h system_id de_index da_index) (\<lambda>dd.
       case (dev, dd) of
         (Some device, Some d) \<Rightarrow>
           (let name = Device_name_display device;
                om = title (replace_char (CHR ''_'') (CHR '' '') (DeviceData_operation_mode d));
                et = (case DeviceData_energy_type d of
                        Some e \<Rightarrow> title (replace_char (CHR ''_'') (CHR '' '') e) @ '' ''
                      | None \<Rightarrow> [])
            in result_bind (DataSensor_home_name h system_id) (\<lambda>hn.
                 Inr (Some (get_name_prefix u hn @ str_nat de_index @ '' '' @ name @ '' ''
                            @ et @ om))))
       | _ \<Rightarrow> Inr None))"

definition DataSensor_unique_id ::
  "utils \<Rightarrow> 'a hass_scheme \<Rightarrow> string \<Rightarrow> nat \<Rightarrow> nat \<Rightarrow> string option result" where
  "DataSensor_unique_id u h system_id de_index da_index =
     result_bind (DataSensor_device h system_id de_index da_index) (\<lambda>dev.
       case dev of
         None \<Rightarrow> Inr None
       | Some device \<Rightarrow>
           Inr (Some (get_unique_id_prefix u system_id @ Device_device_uuid device @ ''_''
                      @ str_nat da_index)))"

definition DataSensor_device_info ::
  "utils \<Rightarrow> 'a hass_scheme \<Rightarrow> string \<Rightarrow> nat \<Rightarrow> nat \<Rightarrow> DeviceInfo option result" where
  "DataSensor_device_info u h system_id de_index da_index =
     result_bind (DataSensor_device h system_id de_index da_index) (\<lambda>dev.
       case dev of
         None \<Rightarrow> Inr None
       | Some device \<Rightarrow>
           result_bind (DataSensor_home_name h system_id) (\<lambda>hn.
             Inr (Some
               \<lparr>identifiers =
                  [(DOMAIN u, ''device_'' @ system_id @ ''_'' @ Device_device_uuid device)],
                DeviceInfo_name =
                  Some (get_name_prefix u hn @ str_nat de_index @ '' ''
                        @ Device_name_display device),
                manufacturer = Some (Device_brand_name device),
                model = Some (Device_product_name_display device),
                sw_version = None\<rparr>)))"

definition DataSensor_native_value ::
  "'a hass_scheme \<Rightarrow> string \<Rightarrow> nat \<Rightarrow> nat \<Rightarrow> py_any result" where
  "DataSensor_native_value h system_id de_index da_index =
     result_bind (data_bucket h system_id de_index da_index) (\<lambda>b.
       case b of
         Some bucket \<Rightarrow> Inr (opt_float (DeviceDataBucket_value bucket))
       | None \<Rightarrow> Inr PyNone)"

subsection \<open>EfficiencySensor\<close>

definition device_data_list ::
  "'a hass_scheme \<Rightarrow> string \<Rightarrow> nat option \<Rightarrow> DeviceData list result" where
  "device_data_list h system_id de_index =
     result_bind (daily_data_getitem h system_id) (\<lambda>sd.
       case de_index of
         None \<Rightarrow> Inr [item. row \<leftarrow> devices_data sd, item \<leftarrow> row]
       | Some i \<Rightarrow> list_getitem (devices_data sd) i)"

definition EfficiencySensor_home_name :: "'a hass_scheme \<Rightarrow> string \<Rightarrow> string result" where
  "EfficiencySensor_home_name h system_id =
     result_bind (daily_data_getitem h system_id) (\<lambda>sd. Inr (home_name sd))"

text \<open>
  The sum of the last bucket of every device data of one energy type, where that
  bucket exists and holds a value that is neither \<open>None\<close> nor zero.
\<close>

definition energy_sum :: "float_arith \<Rightarrow> string \<Rightarrow> DeviceData list \<Rightarrow> real" where
  "energy_sum fl energy_type l =
     py_sum fl [the (DeviceDataBucket_value (last (DeviceData_data v))).
               v \<leftarrow> l,
               DeviceData_data v \<noteq> []
               \<and> truthy (DeviceDataBucket_value (last (DeviceData_data v)))
               \<and> DeviceData_energy_type v = Some energy_type]"

definition energy_consumed ::
  "utils \<Rightarrow> 'a hass_scheme \<Rightarrow> string \<Rightarrow> nat option \<Rightarrow> real result" where
  "energy_consumed u h system_id de_index =
     result_bind (device_data_list h system_id de_index) (\<lambda>l.
       Inr (energy_sum (arithmetic u) ''CONSUMED_ELECTRICAL_ENERGY'' l))"

definition heat_energy_generated ::
  "utils \<Rightarrow> 'a hass_scheme \<Rightarrow> string \<Rightarrow> nat option \<Rightarrow> real result" where
  "heat_energy_generated u h system_id de_index =
     result_bind (device_data_list h system_id de_index) (\<lambda>l.
       Inr (energy_sum (arithmetic u) ''HEAT_GENERATED'' l))"

text \<open>
  The device whose uuid and name an EfficiencySensor of one device shows: that of the
  first device data, when the list is not empty, the sensor has a device index and the
  device is present.
\<close>

definition first_device :: "DeviceData list \<Rightarrow> nat option \<Rightarrow> Device option" where
  "first_device l de_index =
     (if length l > 0 \<and> de_index \<noteq> None then DeviceData_device (l ! 0) else None)"

definition EfficiencySensor_unique_id ::
  "utils \<Rightarrow> 'a hass_scheme \<Rightarrow> string \<Rightarrow> nat option \<Rightarrow> string option result" where
  "EfficiencySensor_unique_id u h system_id de_index =
     result_bind (device_data_list h system_id de_index) (\<lambda>l.
       case first_device l de_index of
         Some device \<Rightarrow>
           Inr (Some (get_unique_id_prefix u system_id @ Device_device_uuid device
                      @ ''_heating_energy_efficiency''))
       | None \<Rightarrow> Inr (Some (get_unique_id_prefix u system_id @ ''heating_energy_efficiency'')))"

definition EfficiencySensor_device_info ::
  "utils \<Rightarrow> 'a hass_scheme \<Rightarrow> string \<Rightarrow> nat option \<Rightarrow> DeviceInfo option result" where
  "EfficiencySensor_device_info u h system_id de_index =
     result_bind (device_data_list h system_id de_index) (\<lambda>l.
       if length l = 0 then Inr None
       else if de_index \<noteq> None \<and> DeviceData_device (l ! 0) \<noteq> None then
         Inr (Some (identifiers_only
           [(DOMAIN u, ''device_'' @ system_id @ ''_''
                       @ Device_device_uuid (the (DeviceData_device (l ! 0))))]))
       else if de_index = None then
         Inr (Some (identifiers_only [(DOMAIN u, ''home_'' @ system_id)]))
       else Inr None)"

definition EfficiencySensor_native_value ::
  "utils \<Rightarrow> 'a hass_scheme \<Rightarrow> string \<Rightarrow> nat option \<Rightarrow> py_any result" where
  "EfficiencySensor_native_value u h system_id de_index =
     result_bind (energy_consumed u h system_id de_index) (\<lambda>consumed.
       if consumed > 0 then
         result_bind (heat_energy_generated u h system_id de_index) (\<lambda>generated.
         result_bind (py_truediv (arithmetic u) generated consumed) (\<lambda>q.
           Inr (PyFloat (py_round q 1))))
       else Inr PyNone)"

definition EfficiencySensor_name ::
  "utils \<Rightarrow> 'a hass_scheme \<Rightarrow> string \<Rightarrow> nat option \<Rightarrow> string option result" where
  "EfficiencySensor_name u h system_id de_index =
     result_bind (device_data_list h system_id de_index) (\<lambda>l.
     result_bind (EfficiencySensor_home_name h system_id) (\<lambda>hn.
       case first_device l de_index of
         Some device \<Rightarrow>
           Inr (Some (get_name_prefix u hn @ str_nat (the de_index) @ '' ''
                      @ Device_name_display device @ '' Heating Energy Efficiency''))
       | None \<Rightarrow> Inr (Some (get_name_prefix u hn @ ''Heating Energy Efficiency''))))"

section \<open>The properties, by sensor class\<close>

text \<open>
  Each property is one function on the sensors, with one equation for every class: the
  body of the property that the class defines or inherits.
\<close>

fun native_value :: "utils \<Rightarrow> sensor \<Rightarrow> 'a hass_scheme \<Rightarrow> py_any result" where
  "native_value u (SystemOutdoorTemperatureSensor index) h =
     result_bind (system h index) (\<lambda>s.
       case System_outdoor_temperature s of
         Some t \<Rightarrow> Inr (PyFloat (py_round t 1))
       | None \<Rightarrow> Inr PyNone)"
| "native_value u (SystemWaterPressureSensor index) h =
     result_bind (system h index) (\<lambda>s.
       case System_water_pressure s of
         Some p \<Rightarrow> Inr (PyFloat (py_round p 1))
       | None \<Rightarrow> Inr PyNone)"
| "native_value u (HomeEntity system_index) h =
     result_bind (system h system_index) (\<lambda>s.
       Inr (PyStr (Home_firmware_version (System_home s))))"
| "native_value u (SystemDeviceWaterPressureSensor system_index device_index) h =
     result_bind (system_device h system_index device_index) (\<lambda>d.
       case map_of (case map_of (Device_operational_data d) ''water_pressure'' of
                      None \<Rightarrow> []
                    | Some wp \<Rightarrow> wp) ''value'' of
         None \<Rightarrow> Inr PyNone
       | Some v \<Rightarrow> Inr v)"
| "native_value u (ZoneDesiredRoomTemperatureSetpointSensor system_index zone_index) h =
     result_bind (zone h system_index zone_index) (\<lambda>z.
       if truthy (Zone_desired_room_temperature_setpoint_heating z) then
         Inr (opt_float (Zone_desired_room_temperature_setpoint_heating z))
       else if truthy (Zone_desired_room_temperature_setpoint_cooling z) then
         Inr (opt_float (Zone_desired_room_temperature_setpoint_cooling z))
       else Inr (opt_float (Zone_desired_room_temperature_setpoint z)))"
| "native_value u (ZoneCurrentRoomTemperatureSensor system_index zone_index) h =
     result_bind (zone h system_index zone_index) (\<lambda>z.
       case Zone_current_room_temperature z of
         None \<Rightarrow> Inr PyNone
       | Some t \<Rightarrow> Inr (PyFloat (py_round t 1)))"
| "native_value u (ZoneHumiditySensor system_index zone_index) h =
     result_bind (zone h system_index zone_index) (\<lambda>z.
       Inr (opt_float (Zone_current_room_humidity z)))"
| "native_value u (ZoneHeatingOperatingModeSensor system_index zone_index) h =
     result_bind (zone h system_index zone_index) (\<lambda>z.
       Inr (PyStr (display_value (ZoneHeating_operation_mode_heating (Zone_heating z)))))"
| "native_value u (ZoneHeatingStateSensor system_index zone_index) h =
     result_bind (zone h system_index zone_index) (\<lambda>z.
       Inr (PyStr (display_value (Zone_heating_state z))))"
| "native_value u (ZoneCurrentSpecialFunctionSensor system_index zone_index) h =
     result_bind (zone h system_index zone_index) (\<lambda>z.
       Inr (PyStr (display_value (Zone_current_special_function z))))"
| "native_value u (CircuitStateSensor system_index circuit_index) h =
     result_bind (circuit h system_index circuit_index) (\<lambda>c.
       Inr (PyStr (Circuit_circuit_state c)))"
| "native_value u (CircuitFlowTemperatureSensor system_index circuit_index) h =
     result_bind (circuit h system_index circuit_index) (\<lambda>c.
       Inr (opt_float (Circuit_current_circuit_flow_temperature c)))"
| "native_value u (CircuitHeatingCurveSensor system_index circuit_index) h =
     result_bind (circuit h system_index circuit_index) (\<lambda>c.
       case Circuit_heating_curve c of
         Some x \<Rightarrow> Inr (PyFloat (py_round x 2))
       | None \<Rightarrow> Inr PyNone)"
| "native_value u (CircuitMinFlowTemperatureSetpointSensor system_index circuit_index) h =
     result_bind (circuit h system_index circuit_index) (\<lambda>c.
       Inr (opt_float (Circuit_min_flow_temperature_setpoint c)))"
| "native_value u (DomesticHotWaterTankTemperatureSensor system_index dhw_index) h =
     result_bind (domestic_hot_water h system_index dhw_index) (\<lambda>d.
       Inr (opt_float (DomesticHotWater_current_dhw_temperature d)))"
| "native_value u (DomesticHotWaterSetPointSensor system_index dhw_index) h =
     result_bind (domestic_hot_water h system_index dhw_index) (\<lambda>d.
       Inr (opt_float (DomesticHotWater_tapping_setpoint d)))"
| "native_value u (DomesticHotWaterOperationModeSensor system_index dhw_index) h =
     result_bind (domestic_hot_water h system_index dhw_index) (\<lambda>d.
       Inr (PyStr (display_value (DomesticHotWater_operation_mode_dhw d))))"
| "native_value u (DomesticHotWaterCurrentSpecialFunctionSensor system_index dhw_index) h =
     result_bind (domestic_hot_water h system_index dhw_index) (\<lambda>d.
       Inr (PyStr (display_value (DomesticHotWater_current_special_function d))))"
| "native_value u (DataSensor system_id de_index da_index unit) h =
     DataSensor_native_value h system_id de_index da_index"
| "native_value u (EfficiencySensor system_id de_index) h =
     EfficiencySensor_native_value u h system_id de_index"

fun unique_id :: "utils \<Rightarrow> sensor \<Rightarrow> 'a hass_scheme \<Rightarrow> string option result" where
  "unique_id u (SystemOutdoorTemperatureSensor index) h =
     system_unique_id u h index ''outdoor_temperature''"
| "unique_id u (SystemWaterPressureSensor index) h =
     system_unique_id u h index (''water_pressure_'' @ str_nat index)"
| "unique_id u (HomeEntity system_index) h =
     system_unique_id u h system_index ''home''"
| "unique_id u (SystemDeviceWaterPressureSensor system_index device_index) h =
     result_bind (system h system_index) (\<lambda>s.
     result_bind (system_device h system_index device_index) (\<lambda>d.
       Inr (Some (get_unique_id_prefix u (System_id s) @ ''water_pressure_''
                  @ Device_device_uuid d))))"
| "unique_id u (ZoneDesiredRoomTemperatureSetpointSensor system_index zone_index) h =
     system_unique_id u h system_index (''zone_desired_temperature_'' @ str_nat zone_index)"
| "unique_id u (ZoneCurrentRoomTemperatureSensor system_index zone_index) h =
     system_unique_id u h system_index (''zone_current_temperature_'' @ str_nat zone_index)"
| "unique_id u (ZoneHumiditySensor system_index zone_index) h =
     system_unique_id u h system_index (''zone_humidity_'' @ str_nat zone_index)"
| "unique_id u (ZoneHeatingOperatingModeSensor system_index zone_index) h =
     system_unique_id u h system_index
       (''zone_heating_operating_mode_'' @ str_nat zone_index)"
| "unique_id u (ZoneHeatingStateSensor system_index zone_index) h =
     system_unique_id u h system_index (''zone_heating_state_'' @ str_nat zone_index)"
| "unique_id u (ZoneCurrentSpecialFunctionSensor system_index zone_index) h =
     system_unique_id u h system_index
       (''zone_current_special_function_'' @ str_nat zone_index)"
| "unique_id u (CircuitStateSensor system_index circuit_index) h =
     system_unique_id u h system_index (''circuit_state_'' @ str_nat circuit_index)"
| "unique_id u (CircuitFlowTemperatureSensor system_index circuit_index) h =
     system_unique_id u h system_index
       (''circuit_flow_temperature_'' @ str_nat circuit_index)"
| "unique_id u (CircuitHeatingCurveSensor system_index circuit_index) h =
     system_unique_id u h system_index (''circuit_heating_curve_'' @ str_nat circuit_index)"
| "unique_id u (CircuitMinFlowTemperatureSetpointSensor system_index circuit_index) h =
     system_unique_id u h system_index
       (''circuit_min_flow_temperature_setpoint_'' @ str_nat circuit_index)"
| "unique_id u (DomesticHotWaterTankTemperatureSensor system_index dhw_index) h =
     system_unique_id u h system_index (''dhw_tank_temperature_'' @ str_nat dhw_index)"
| "unique_id u (DomesticHotWaterSetPointSensor system_index dhw_index) h =
     system_unique_id u h system_index (''dhw_set_point_'' @ str_nat dhw_index)"
| "unique_id u (DomesticHotWaterOperationModeSensor system_index dhw_index) h =
     system_unique_id u h system_index (''dhw_operation_mode_'' @ str_nat dhw_index)"
| "unique_id u (DomesticHotWaterCurrentSpecialFunctionSensor system_index dhw_index) h =
     system_unique_id u h system_index
       (''dhw_current_special_function_'' @ str_nat dhw_index)"
| "unique_id u (DataSensor system_id de_index da_index unit) h =
     DataSensor_unique_id u h system_id de_index da_index"
| "unique_id u (EfficiencySensor system_id de_index) h =
     EfficiencySensor_unique_id u h system_id de_index"

definition system_sensor_name ::
  "utils \<Rightarrow> 'a hass_scheme \<Rightarrow> nat \<Rightarrow> string \<Rightarrow> string option result" where
  "system_sensor_name u h system_index label =
     result_bind (system h system_index) (\<lambda>s.
       Inr (Some (get_name_prefix u (Home_name (System_home s)) @ label)))"

fun name :: "utils \<Rightarrow> sensor \<Rightarrow> 'a hass_scheme \<Rightarrow> string option result" where
  "name u (SystemOutdoorTemperatureSensor index) h =
     system_sensor_name u h index ''Outdoor Temperature''"
| "name u (SystemWaterPressureSensor index) h =
     system_sensor_name u h index ''System Water Pressure''"
| "name u (HomeEntity system_index) h =
     system_sensor_name u h system_index ''Firmware Version''"
| "name u (SystemDeviceWaterPressureSensor system_index device_index) h =
     result_bind (system h system_index) (\<lambda>s.
     result_bind (system_device h system_index device_index) (\<lambda>d.
       Inr (Some (get_name_prefix u (Home_name (System_home s)) @ ''Water Pressure ''
                  @ Device_name d))))"
| "name u (ZoneDesiredRoomTemperatureSetpointSensor system_index zone_index) h =
     zone_sensor_name u h ''Desired Temperature in '' system_index zone_index"
| "name u (ZoneCurrentRoomTemperatureSensor system_index zone_index) h =
     zone_sensor_name u h ''Current Temperature in '' system_index zone_index"
| "name u (ZoneHumiditySensor system_index zone_index) h =
     zone_sensor_name u h ''Humidity in '' system_index zone_index"
| "name u (ZoneHeatingOperatingModeSensor system_index zone_index) h =
     zone_sensor_name u h ''Heating Operating Mode in '' system_index zone_index"
| "name u (ZoneHeatingStateSensor system_index zone_index) h =
     zone_sensor_name u h ''Heating State in '' system_index zone_index"
| "name u (ZoneCurrentSpecialFunctionSensor system_index zone_index) h =
     zone_sensor_name u h ''Current Special Function in '' system_index zone_index"
| "name u (CircuitStateSensor system_index circuit_index) h =
     circuit_sensor_name u h ''State in Circuit '' system_index circuit_index"
| "name u (CircuitFlowTemperatureSensor system_index circuit_index) h =
     circuit_sensor_name u h ''Current Flow Temperature in Circuit '' system_index
       circuit_index"
| "name u (CircuitHeatingCurveSensor system_index circuit_index) h =
     circuit_sensor_name u h ''Heating Curve in Circuit '' system_index circuit_index"
| "name u (CircuitMinFlowTemperatureSetpointSensor system_index circuit_index) h =
     circuit_sensor_name u h ''Min Flow Temperature Setpoint in Circuit '' system_index
       circuit_index"
| "name u (DomesticHotWaterTankTemperatureSensor system_index dhw_index) h =
     dhw_sensor_name u h ''Tank Temperature Domestic Hot Water '' system_index dhw_index"
| "name u (DomesticHotWaterSetPointSensor system_index dhw_index) h =
     dhw_sensor_name u h ''Setpoint Domestic Hot Water '' system_index dhw_index"
| "name u (DomesticHotWaterOperationModeSensor system_index dhw_index) h =
     dhw_sensor_name u h ''Operation Mode Domestic Hot Water '' system_index dhw_index"
| "name u (DomesticHotWaterCurrentSpecialFunctionSensor system_index dhw_index) h =
     dhw_sensor_name u h ''Current Special Function Domestic Hot Water '' system_index
       dhw_index"
| "name u (DataSensor system_id de_index da_index unit) h =
     DataSensor_name u h system_id de_index da_index"
| "name u (EfficiencySensor system_id de_index) h =
     EfficiencySensor_name u h system_id de_index"

subsection \<open>device_info of the base classes\<close>

definition SystemSensor_device_info ::
  "utils \<Rightarrow> 'a hass_scheme \<Rightarrow> nat \<Rightarrow> DeviceInfo option result" where
  "SystemSensor_device_info u h index =
     result_bind (system h index) (\<lambda>s.
       Inr (Some (identifiers_only [(DOMAIN u, ''home_'' @ System_id s)])))"

definition HomeEntity_device_info ::
  "utils \<Rightarrow> 'a hass_scheme \<Rightarrow> nat \<Rightarrow> DeviceInfo option result" where
  "HomeEntity_device_info u h system_index =
     result_bind (system h system_index) (\<lambda>s.
       Inr (Some
         \<lparr>identifiers = [(DOMAIN u, ''home_'' @ System_id s)],
          DeviceInfo_name = Some (Home_name (System_home s)),
          manufacturer = Some (System_brand_name s),
          model = Some (Home_nomenclature (System_home s)),
          sw_version = Some (Home_firmware_version (System_home s))\<rparr>))"

definition ZoneEntity_device_info ::
  "utils \<Rightarrow> 'a hass_scheme \<Rightarrow> nat \<Rightarrow> nat \<Rightarrow> DeviceInfo option result" where
  "ZoneEntity_device_info u h system_index zone_index =
     result_bind (system h system_index) (\<lambda>s.
     result_bind (zone h system_index zone_index) (\<lambda>z.
     result_bind (circuit_name_suffix h system_index zone_index) (\<lambda>suffix.
       Inr (Some
         \<lparr>identifiers =
            [(DOMAIN u, ''zone_'' @ System_id s @ ''_'' @ str_int (Zone_index z))],
          DeviceInfo_name =
            Some (get_name_prefix u (Home_name (System_home s)) @ ''Zone '' @ Zone_name z
                  @ suffix),
          manufacturer = Some (System_brand_name s),
          model = None,
          sw_version = None\<rparr>))))"

definition CircuitSensor_device_info ::
  "utils \<Rightarrow> 'a hass_scheme \<Rightarrow> nat \<Rightarrow> nat \<Rightarrow> DeviceInfo option result" where
  "CircuitSensor_device_info u h system_index circuit_index =
     result_bind (system h system_index) (\<lambda>s.
     result_bind (circuit h system_index circuit_index) (\<lambda>c.
       Inr (Some (identifiers_only
         [(DOMAIN u, ''circuit_'' @ System_id s @ ''_'' @ str_int (Circuit_index c))]))))"

definition DomesticHotWaterSensor_device_info ::
  "utils \<Rightarrow> 'a hass_scheme \<Rightarrow> nat \<Rightarrow> nat \<Rightarrow> DeviceInfo option result" where
  "DomesticHotWaterSensor_device_info u h system_index dhw_index =
     result_bind (system h system_index) (\<lambda>s.
     result_bind (domestic_hot_water h system_index dhw_index) (\<lambda>d.
       Inr (Some (identifiers_only
         [(DOMAIN u, ''domestic_hot_water_'' @ System_id s @ ''_''
                     @ str_int (DomesticHotWater_index d))]))))"

definition SystemDeviceSensor_device_info ::
  "utils \<Rightarrow> 'a hass_scheme \<Rightarrow> nat \<Rightarrow> DeviceInfo option result" where
  "SystemDeviceSensor_device_info u h system_index =
     result_bind (system h system_index) (\<lambda>s.
       Inr (Some (identifiers_only [(DOMAIN u, ''system_'' @ System_id s)])))"

fun device_info :: "utils \<Rightarrow> sensor \<Rightarrow> 'a hass_scheme \<Rightarrow> DeviceInfo option result" where
  "device_info u (SystemOutdoorTemperatureSensor index) h = SystemSensor_device_info u h index"
| "device_info u (SystemWaterPressureSensor index) h = SystemSensor_device_info u h index"
| "device_info u (HomeEntity system_index) h = HomeEntity_device_info u h system_index"
| "device_info u (SystemDeviceWaterPressureSensor system_index device_index) h =
     SystemDeviceSensor_device_info u h system_index"
| "device_info u (ZoneDesiredRoomTemperatureSetpointSensor system_index zone_index) h =
     ZoneEntity_device_info u h system_index zone_index"
| "device_info u (ZoneCurrentRoomTemperatureSensor system_index zone_index) h =
     ZoneEntity_device_info u h system_index zone_index"
| "device_info u (ZoneHumiditySensor system_index zone_index) h =
     ZoneEntity_device_info u h system_index zone_index"
| "device_info u (ZoneHeatingOperatingModeSensor system_index zone_index) h =
     ZoneEntity_device_info u h system_index zone_index"
| "device_info u (ZoneHeatingStateSensor system_index zone_index) h =
     ZoneEntity_device_info u h system_index zone_index"
| "device_info u (ZoneCurrentSpecialFunctionSensor system_index zone_index) h =
     ZoneEntity_device_info u h system_index zone_index"
| "device_info u (CircuitStateSensor system_index circuit_index) h =
     CircuitSensor_device_info u h system_index circuit_index"
| "device_info u (CircuitFlowTemperatureSensor system_index circuit_index) h =
     CircuitSensor_device_info u h system_index circuit_index"
| "device_info u (CircuitHeatingCurveSensor system_index circuit_index) h =
     CircuitSensor_device_info u h system_index circuit_index"
| "device_info u (CircuitMinFlowTemperatureSetpointSensor system_index circuit_index) h =
     CircuitSensor_device_info u h system_index circuit_index"
| "device_info u (DomesticHotWaterTankTemperatureSensor system_index dhw_index) h =
     DomesticHotWaterSensor_device_info u h system_index dhw_index"
| "device_info u (DomesticHotWaterSetPointSensor system_index dhw_index) h =
     DomesticHotWaterSensor_device_info u h system_index dhw_index"
| "device_info u (DomesticHotWaterOperationModeSensor system_index dhw_index) h =
     DomesticHotWaterSensor_device_info u h system_index dhw_index"
| "device_info u (DomesticHotWaterCurrentSpecialFunctionSensor system_index dhw_index) h =
     DomesticHotWaterSensor_device_info u h system_index dhw_index"
| "device_info u (DataSensor system_id de_index da_index unit) h =
     DataSensor_device_info u h system_id de_index da_index"
| "device_info u (EfficiencySensor system_id de_index) h =
     EfficiencySensor_device_info u h system_id de_index"

text \<open>
  \<open>extra_state_attributes\<close> is defined by HomeEntity and CircuitStateSensor; the other
  classes inherit the host's default, which returns \<open>None\<close>.
\<close>

fun extra_state_attributes ::
  "sensor \<Rightarrow> 'a hass_scheme \<Rightarrow> (string, py_any) py_dict option result" where
  "extra_state_attributes (HomeEntity system_index) h =
     result_bind (system h system_index) (\<lambda>s.
       Inr (Some (dict_union (Home_extra_fields (System_home s)) (System_extra_fields s))))"
| "extra_state_attributes (CircuitStateSensor system_index circuit_index) h =
     result_bind (circuit h system_index circuit_index) (\<lambda>c.
       Inr (Some (Circuit_extra_fields c)))"
| "extra_state_attributes s h = Inr None"

section \<open>DataSensor.__init__ and create_daily_data_sensors\<close>

text \<open>
  The constructor reads the device data once to select the unit, and then evaluates
  \<open>name\<close>, \<open>native_value\<close> and \<open>unique_id\<close> as arguments of a debug log call, so
  an exception of any of them leaves the constructor. The attribute stays unset
  (\<open>None\<close>) when no unit is selected.
\<close>

definition select_unit :: "DeviceData option \<Rightarrow> string option" where
  "select_unit dd =
     (case dd of
        None \<Rightarrow> None
      | Some d \<Rightarrow>
          (case DeviceData_energy_type d of
             None \<Rightarrow> None
           | Some e \<Rightarrow> if dict_contains e DATA_UNIT_MAP then map_of DATA_UNIT_MAP e else None))"

definition DataSensor_init ::
  "utils \<Rightarrow> 'a hass_scheme \<Rightarrow> string \<Rightarrow> nat \<Rightarrow> nat \<Rightarrow> sensor result" where
  "DataSensor_init u h system_id de_index da_index =
     result_bind (device_data h system_id de_index da_index) (\<lambda>dd.
       let self = DataSensor system_id de_index da_index (select_unit dd)
       in result_bind (name u self h) (\<lambda>_.
          result_bind (native_value u self h) (\<lambda>_.
          result_bind (unique_id u self h) (\<lambda>_.
            Inr self))))"

text \<open>A loop whose body may raise: the fold stops at the first exception.\<close>

fun fold_result :: "('a \<Rightarrow> 's \<Rightarrow> 's result) \<Rightarrow> 'a list \<Rightarrow> 's \<Rightarrow> 's result" where
  "fold_result f [] s = Inr s"
| "fold_result f (x # xs) s = result_bind (f x s) (fold_result f xs)"

definition data_loop ::
  "utils \<Rightarrow> 'a hass_scheme \<Rightarrow> string \<Rightarrow> nat \<Rightarrow> nat \<times> DeviceData \<Rightarrow> sensor list
   \<Rightarrow> sensor list result" where
  "data_loop u h system_id de_index = (\<lambda>(da_index, _) sensors.
     result_bind (DataSensor_init u h system_id de_index da_index) (\<lambda>s.
       Inr (sensors @ [s])))"

definition devices_data_loop ::
  "utils \<Rightarrow> 'a hass_scheme \<Rightarrow> string \<Rightarrow> nat \<times> DeviceData list \<Rightarrow> sensor list
   \<Rightarrow> sensor list result" where
  "devices_data_loop u h system_id = (\<lambda>(de_index, device_datas) sensors.
     if length device_datas = 0 then Inr sensors
     else
       let sensors = sensors @ [EfficiencySensor system_id (Some de_index)]
       in result_bind (daily_data_getitem h system_id) (\<lambda>sd.
          result_bind (list_getitem (devices_data sd) de_index) (\<lambda>row.
            fold_result (data_loop u h system_id de_index) (enumerate 0 row) sensors)))"

definition daily_system_loop ::
  "utils \<Rightarrow> 'a hass_scheme \<Rightarrow> string \<times> SystemDevices \<Rightarrow> sensor list \<Rightarrow> sensor list result" where
  "daily_system_loop u h = (\<lambda>(system_id, system_devices) sensors.
     let sensors = sensors @ [EfficiencySensor system_id None]
     in fold_result (devices_data_loop u h system_id)
          (enumerate 0 (devices_data system_devices)) sensors)"

text \<open>\<open>not daily_data_coordinator.data\<close> holds for \<open>None\<close> and for the empty dict.\<close>

definition create_daily_data_sensors :: "utils \<Rightarrow> 'a hass_scheme \<Rightarrow> sensor list result" where
  "create_daily_data_sensors u h =
     (case daily_data_coordinator_data h of
        None \<Rightarrow> Inr []
      | Some data \<Rightarrow> if data = [] then Inr [] else fold_result (daily_system_loop u h) data [])"

section \<open>async_setup_entry\<close>

text \<open>
  The host's state: the two coordinators and the entities added to the platform.
  \<open>async_add_entities\<close> appends to the entities; it is the callback of the host.
\<close>

record ha_state = hass +
  entities :: "sensor list"

definition async_setup_entry ::
  "utils \<Rightarrow> 'a ha_state_scheme \<Rightarrow> unit result \<times> 'a ha_state_scheme" where
  "async_setup_entry u st =
     (let st = st\<lparr>entities := entities st @ create_system_sensors st\<rparr>
      in case create_daily_data_sensors u st of
           Inl e \<Rightarrow> (Inl e, st)
         | Inr sensors \<Rightarrow> (Inr (), st\<lparr>entities := entities st @ sensors\<rparr>))"

section \<open>The operations in state-passing form\<close>

text \<open>
  Here every operation of the component takes the state and returns its result together
  with the state after it, and the state is threaded through every step: a property that
  reads \<open>self.coordinator.data\<close> reads it from the state at that step, and what follows
  runs in the state that the read returns. \<open>bind_s\<close> sequences two steps;
  \<open>bind_pure\<close> ends a sequence with a computation that touches no state. An exception
  ends the sequence in the state where it was raised.
\<close>

definition bind_s ::
  "'a result \<times> 's \<Rightarrow> ('a \<Rightarrow> 's \<Rightarrow> 'b result \<times> 's) \<Rightarrow> 'b result \<times> 's" where
  "bind_s m f = (case m of (r, st) \<Rightarrow> (case r of Inl e \<Rightarrow> (Inl e, st) | Inr x \<Rightarrow> f x st))"

definition bind_pure :: "'a result \<times> 's \<Rightarrow> ('a \<Rightarrow> 'b result) \<Rightarrow> 'b result \<times> 's" where
  "bind_pure m f = (case m of (r, st) \<Rightarrow> (case r of Inl e \<Rightarrow> (Inl e, st) | Inr x \<Rightarrow> (f x, st)))"

subsection \<open>The properties\<close>

definition system_s ::
  "'a hass_scheme \<Rightarrow> nat \<Rightarrow> System result \<times> 'a hass_scheme" where
  "system_s h index =
     (case system_coordinator_data h of
        None \<Rightarrow> Inl TypeError
      | Some data \<Rightarrow> list_getitem data index, h)"

definition zone_s ::
  "'a hass_scheme \<Rightarrow> nat \<Rightarrow> nat
   \<Rightarrow> Zone result \<times> 'a hass_scheme" where
  "zone_s h system_index zone_index =
     bind_pure (system_s h system_index) (\<lambda>s. list_getitem (System_zones s) zone_index)"

definition circuit_s ::
  "'a hass_scheme \<Rightarrow> nat \<Rightarrow> nat
   \<Rightarrow> Circuit result \<times> 'a hass_scheme" where
  "circuit_s h system_index circuit_index =
     bind_pure (system_s h system_index) (\<lambda>s. list_getitem (System_circuits s) circuit_index)"

definition domestic_hot_water_s ::
  "'a hass_scheme \<Rightarrow> nat \<Rightarrow> nat
   \<Rightarrow> DomesticHotWater result \<times> 'a hass_scheme" where
  "domestic_hot_water_s h system_index dhw_index =
     bind_pure (system_s h system_index)
       (\<lambda>s. list_getitem (System_domestic_hot_water s) dhw_index)"

definition system_device_s ::
  "'a hass_scheme \<Rightarrow> nat \<Rightarrow> nat
   \<Rightarrow> Device result \<times> 'a hass_scheme" where
  "system_device_s h system_index device_index =
     bind_pure (system_s h system_index) (\<lambda>s. list_getitem (System_devices s) device_index)"

definition circuit_name_suffix_s ::
  "'a hass_scheme \<Rightarrow> nat \<Rightarrow> nat
   \<Rightarrow> string result \<times> 'a hass_scheme" where
  "circuit_name_suffix_s h system_index zone_index =
     bind_pure (zone_s h system_index zone_index) (\<lambda>z.
       case Zone_associated_circuit_index z of
         None \<Rightarrow> Inr []
       | Some c \<Rightarrow> Inr ('' of Circuit '' @ str_int c))"

definition zone_sensor_name_s ::
  "utils \<Rightarrow> 'a hass_scheme \<Rightarrow> string \<Rightarrow> nat \<Rightarrow> nat
   \<Rightarrow> string option result \<times> 'a hass_scheme" where
  "zone_sensor_name_s u h label system_index zone_index =
     bind_s (system_s h system_index) (\<lambda>s h.
     bind_pure (zone_s h system_index zone_index) (\<lambda>z.
       Inr (Some (get_name_prefix u (Home_name (System_home s)) @ label @ Zone_name z))))"

definition circuit_sensor_name_s ::
  "utils \<Rightarrow> 'a hass_scheme \<Rightarrow> string \<Rightarrow> nat \<Rightarrow> nat
   \<Rightarrow> string option result \<times> 'a hass_scheme" where
  "circuit_sensor_name_s u h label system_index circuit_index =
     bind_s (system_s h system_index) (\<lambda>s h.
     bind_pure (circuit_s h system_index circuit_index) (\<lambda>c.
       Inr (Some (get_name_prefix u (Home_name (System_home s)) @ label
                  @ str_int (Circuit_index c)))))"

definition dhw_sensor_name_s ::
  "utils \<Rightarrow> 'a hass_scheme \<Rightarrow> string \<Rightarrow> nat \<Rightarrow> nat
   \<Rightarrow> string option result \<times> 'a hass_scheme" where
  "dhw_sensor_name_s u h label system_index dhw_index =
     bind_s (system_s h system_index) (\<lambda>s h.
     bind_pure (domestic_hot_water_s h system_index dhw_index) (\<lambda>d.
       Inr (Some (get_name_prefix u (Home_name (System_home s)) @ label
                  @ str_int (DomesticHotWater_index d)))))"

definition system_unique_id_s ::
  "utils \<Rightarrow> 'a hass_scheme \<Rightarrow> nat \<Rightarrow> string
   \<Rightarrow> string option result \<times> 'a hass_scheme" where
  "system_unique_id_s u h system_index suffix =
     bind_pure (system_s h system_index) (\<lambda>s.
       Inr (Some (get_unique_id_prefix u (System_id s) @ suffix)))"

definition daily_data_getitem_s ::
  "'a hass_scheme \<Rightarrow> string
   \<Rightarrow> SystemDevices result \<times> 'a hass_scheme" where
  "daily_data_getitem_s h system_id =
     (case daily_data_coordinator_data h of
        None \<Rightarrow> Inl TypeError
      | Some data \<Rightarrow> dict_getitem data system_id, h)"

definition device_data_s ::
  "'a hass_scheme \<Rightarrow> string \<Rightarrow> nat \<Rightarrow> nat
   \<Rightarrow> DeviceData option result \<times> 'a hass_scheme" where
  "device_data_s h system_id de_index da_index =
     bind_pure (daily_data_getitem_s h system_id) (\<lambda>sd.
       if length (devices_data sd) \<le> de_index then Inr None
       else if length (devices_data sd ! de_index) \<le> da_index then Inr None
       else Inr (Some (devices_data sd ! de_index ! da_index)))"

definition DataSensor_home_name_s ::
  "'a hass_scheme \<Rightarrow> string \<Rightarrow> string result \<times> 'a hass_scheme" where
  "DataSensor_home_name_s h system_id =
     bind_pure (daily_data_getitem_s h system_id) (\<lambda>sd. Inr (home_name sd))"

definition DataSensor_device_s ::
  "'a hass_scheme \<Rightarrow> string \<Rightarrow> nat \<Rightarrow> nat
   \<Rightarrow> Device option result \<times> 'a hass_scheme" where
  "DataSensor_device_s h system_id de_index da_index =
     bind_pure (device_data_s h system_id de_index da_index) (\<lambda>dd.
       case dd of None \<Rightarrow> Inr None | Some d \<Rightarrow> Inr (DeviceData_device d))"

definition data_bucket_s ::
  "'a hass_scheme \<Rightarrow> string \<Rightarrow> nat \<Rightarrow> nat
   \<Rightarrow> DeviceDataBucket option result \<times> 'a hass_scheme" where
  "data_bucket_s h system_id de_index da_index =
     bind_pure (device_data_s h system_id de_index da_index) (\<lambda>dd.
       case dd of
         None \<Rightarrow> Inr None
       | Some d \<Rightarrow>
           (let data = [b. b \<leftarrow> DeviceData_data d, DeviceDataBucket_value b \<noteq> None]
            in if length data > 0 then Inr (Some (last data)) else Inr None))"

definition DataSensor_name_s ::
  "utils \<Rightarrow> 'a hass_scheme \<Rightarrow> string \<Rightarrow> nat \<Rightarrow> nat
   \<Rightarrow> string option result \<times> 'a hass_scheme" where
  "DataSensor_name_s u h system_id de_index da_index =
     bind_s (DataSensor_device_s h system_id de_index da_index) (\<lambda>dev h.
     bind_s (device_data_s h system_id de_index da_index) (\<lambda>dd h.
       case (dev, dd) of
         (Some device, Some d) \<Rightarrow>
           (let name = Device_name_display device;
                om = title (replace_char (CHR ''_'') (CHR '' '') (DeviceData_operation_mode d));
                et = (case DeviceData_energy_type d of
                        Some e \<Rightarrow> title (replace_char (CHR ''_'') (CHR '' '') e) @ '' ''
                      | None \<Rightarrow> [])
            in bind_pure (DataSensor_home_name_s h system_id) (\<lambda>hn.
                 Inr (Some (get_name_prefix u hn @ str_nat de_index @ '' '' @ name @ '' ''
                            @ et @ om))))
       | _ \<Rightarrow> (Inr None, h)))"

definition DataSensor_unique_id_s ::
  "utils \<Rightarrow> 'a hass_scheme \<Rightarrow> string \<Rightarrow> nat \<Rightarrow> nat
   \<Rightarrow> string option result \<times> 'a hass_scheme" where
  "DataSensor_unique_id_s u h system_id de_index da_index =
     bind_pure (DataSensor_device_s h system_id de_index da_index) (\<lambda>dev.
       case dev of
         None \<Rightarrow> Inr None
       | Some device \<Rightarrow>
           Inr (Some (get_unique_id_prefix u system_id @ Device_device_uuid device @ ''_''
                      @ str_nat da_index)))"

definition DataSensor_device_info_s ::
  "utils \<Rightarrow> 'a hass_scheme \<Rightarrow> string \<Rightarrow> nat \<Rightarrow> nat
   \<Rightarrow> DeviceInfo option result \<times> 'a hass_scheme" where
  "DataSensor_device_info_s u h system_id de_index da_index =
     bind_s (DataSensor_device_s h system_id de_index da_index) (\<lambda>dev h.
       case dev of
         None \<Rightarrow> (Inr None, h)
       | Some device \<Rightarrow>
           bind_pure (DataSensor_home_name_s h system_id) (\<lambda>hn.
             Inr (Some
               \<lparr>identifiers =
                  [(DOMAIN u, ''device_'' @ system_id @ ''_'' @ Device_device_uuid device)],
                DeviceInfo_name =
                  Some (get_name_prefix u hn @ str_nat de_index @ '' ''
                        @ Device_name_display device),
                manufacturer = Some (Device_brand_name device),
                model = Some (Device_product_name_display device),
                sw_version = None\<rparr>)))"

definition DataSensor_native_value_s ::
  "'a hass_scheme \<Rightarrow> string \<Rightarrow> nat \<Rightarrow> nat
   \<Rightarrow> py_any result \<times> 'a hass_scheme" where
  "DataSensor_native_value_s h system_id de_index da_index =
     bind_pure (data_bucket_s h system_id de_index da_index) (\<lambda>b.
       case b of
         Some bucket \<Rightarrow> Inr (opt_float (DeviceDataBucket_value bucket))
       | None \<Rightarrow> Inr PyNone)"

definition device_data_list_s ::
  "'a hass_scheme \<Rightarrow> string \<Rightarrow> nat option
   \<Rightarrow> DeviceData list result \<times> 'a hass_scheme" where
  "device_data_list_s h system_id de_index =
     bind_pure (daily_data_getitem_s h system_id) (\<lambda>sd.
       case de_index of
         None \<Rightarrow> Inr [item. row \<leftarrow> devices_data sd, item \<leftarrow> row]
       | Some i \<Rightarrow> list_getitem (devices_data sd) i)"

definition EfficiencySensor_home_name_s ::
  "'a hass_scheme \<Rightarrow> string \<Rightarrow> string result \<times> 'a hass_scheme" where
  "EfficiencySensor_home_name_s h system_id =
     bind_pure (daily_data_getitem_s h system_id) (\<lambda>sd. Inr (home_name sd))"

definition energy_consumed_s ::
  "utils \<Rightarrow> 'a hass_scheme \<Rightarrow> string \<Rightarrow> nat option
   \<Rightarrow> real result \<times> 'a hass_scheme" where
  "energy_consumed_s u h system_id de_index =
     bind_pure (device_data_list_s h system_id de_index) (\<lambda>l.
       Inr (energy_sum (arithmetic u) ''CONSUMED_ELECTRICAL_ENERGY'' l))"

definition heat_energy_generated_s ::
  "utils \<Rightarrow> 'a hass_scheme \<Rightarrow> string \<Rightarrow> nat option
   \<Rightarrow> real result \<times> 'a hass_scheme" where
  "heat_energy_generated_s u h system_id de_index =
     bind_pure (device_data_list_s h system_id de_index) (\<lambda>l.
       Inr (energy_sum (arithmetic u) ''HEAT_GENERATED'' l))"

definition EfficiencySensor_unique_id_s ::
  "utils \<Rightarrow> 'a hass_scheme \<Rightarrow> string \<Rightarrow> nat option
   \<Rightarrow> string option result \<times> 'a hass_scheme" where
  "EfficiencySensor_unique_id_s u h system_id de_index =
     bind_pure (device_data_list_s h system_id de_index) (\<lambda>l.
       case first_device l de_index of
         Some device \<Rightarrow>
           Inr (Some (get_unique_id_prefix u system_id @ Device_device_uuid device
                      @ ''_heating_energy_efficiency''))
       | None \<Rightarrow> Inr (Some (get_unique_id_prefix u system_id @ ''heating_energy_efficiency'')))"

definition EfficiencySensor_device_info_s ::
  "utils \<Rightarrow> 'a hass_scheme \<Rightarrow> string \<Rightarrow> nat option
   \<Rightarrow> DeviceInfo option result \<times> 'a hass_scheme" where
  "EfficiencySensor_device_info_s u h system_id de_index =
     bind_pure (device_data_list_s h system_id de_index) (\<lambda>l.
       if length l = 0 then Inr None
       else if de_index \<noteq> None \<and> DeviceData_device (l ! 0) \<noteq> None then
         Inr (Some (identifiers_only
           [(DOMAIN u, ''device_'' @ system_id @ ''_''
                       @ Device_device_uuid (the (DeviceData_device (l ! 0))))]))
       else if de_index = None then
         Inr (Some (identifiers_only [(DOMAIN u, ''home_'' @ system_id)]))
       else Inr None)"

definition EfficiencySensor_native_value_s ::
  "utils \<Rightarrow> 'a hass_scheme \<Rightarrow> string \<Rightarrow> nat option
   \<Rightarrow> py_any result \<times> 'a hass_scheme" where
  "EfficiencySensor_native_value_s u h system_id de_index =
     bind_s (energy_consumed_s u h system_id de_index) (\<lambda>consumed h.
       if consumed > 0 then
         bind_pure (heat_energy_generated_s u h system_id de_index) (\<lambda>generated.
         result_bind (py_truediv (arithmetic u) generated consumed) (\<lambda>q.
           Inr (PyFloat (py_round q 1))))
       else (Inr PyNone, h))"

definition EfficiencySensor_name_s ::
  "utils \<Rightarrow> 'a hass_scheme \<Rightarrow> string \<Rightarrow> nat option
   \<Rightarrow> string option result \<times> 'a hass_scheme" where
  "EfficiencySensor_name_s u h system_id de_index =
     bind_s (device_data_list_s h system_id de_index) (\<lambda>l h.
     bind_pure (EfficiencySensor_home_name_s h system_id) (\<lambda>hn.
       case first_device l de_index of
         Some device \<Rightarrow>
           Inr (Some (get_name_prefix u hn @ str_nat (the de_index) @ '' ''
                      @ Device_name_display device @ '' Heating Energy Efficiency''))
       | None \<Rightarrow> Inr (Some (get_name_prefix u hn @ ''Heating Energy Efficiency''))))"

fun native_value_s ::
  "utils \<Rightarrow> sensor \<Rightarrow> 'a hass_scheme
   \<Rightarrow> py_any result \<times> 'a hass_scheme" where
  "native_value_s u (SystemOutdoorTemperatureSensor index) h =
     bind_pure (system_s h index) (\<lambda>s.
       case System_outdoor_temperature s of
         Some t \<Rightarrow> Inr (PyFloat (py_round t 1))
       | None \<Rightarrow> Inr PyNone)"
| "native_value_s u (SystemWaterPressureSensor index) h =
     bind_pure (system_s h index) (\<lambda>s.
       case System_water_pressure s of
         Some p \<Rightarrow> Inr (PyFloat (py_round p 1))
       | None \<Rightarrow> Inr PyNone)"
| "native_value_s u (HomeEntity system_index) h =
     bind_pure (system_s h system_index) (\<lambda>s.
       Inr (PyStr (Home_firmware_version (System_home s))))"
| "native_value_s u (SystemDeviceWaterPressureSensor system_index device_index) h =
     bind_pure (system_device_s h system_index device_index) (\<lambda>d.
       case map_of (case map_of (Device_operational_data d) ''water_pressure'' of
                      None \<Rightarrow> []
                    | Some wp \<Rightarrow> wp) ''value'' of
         None \<Rightarrow> Inr PyNone
       | Some v \<Rightarrow> Inr v)"
| "native_value_s u (ZoneDesiredRoomTemperatureSetpointSensor system_index zone_index) h =
     bind_pure (zone_s h system_index zone_index) (\<lambda>z.
       if truthy (Zone_desired_room_temperature_setpoint_heating z) then
         Inr (opt_float (Zone_desired_room_temperature_setpoint_heating z))
       else if truthy (Zone_desired_room_temperature_setpoint_cooling z) then
         Inr (opt_float (Zone_desired_room_temperature_setpoint_cooling z))
       else Inr (opt_float (Zone_desired_room_temperature_setpoint z)))"
| "native_value_s u (ZoneCurrentRoomTemperatureSensor system_index zone_index) h =
     bind_pure (zone_s h system_index zone_index) (\<lambda>z.
       case Zone_current_room_temperature z of
         None \<Rightarrow> Inr PyNone
       | Some t \<Rightarrow> Inr (PyFloat (py_round t 1)))"
| "native_value_s u (ZoneHumiditySensor system_index zone_index) h =
     bind_pure (zone_s h system_index zone_index) (\<lambda>z.
       Inr (opt_float (Zone_current_room_humidity z)))"
| "native_value_s u (ZoneHeatingOperatingModeSensor system_index zone_index) h =
     bind_pure (zone_s h system_index zone_index) (\<lambda>z.
       Inr (PyStr (display_value (ZoneHeating_operation_mode_heating (Zone_heating z)))))"
| "native_value_s u (ZoneHeatingStateSensor system_index zone_index) h =
     bind_pure (zone_s h system_index zone_index) (\<lambda>z.
       Inr (PyStr (display_value (Zone_heating_state z))))"
| "native_value_s u (ZoneCurrentSpecialFunctionSensor system_index zone_index) h =
     bind_pure (zone_s h system_index zone_index) (\<lambda>z.
       Inr (PyStr (display_value (Zone_current_special_function z))))"
| "native_value_s u (CircuitStateSensor system_index circuit_index) h =
     bind_pure (circuit_s h system_index circuit_index) (\<lambda>c.
       Inr (PyStr (Circuit_circuit_state c)))"
| "native_value_s u (CircuitFlowTemperatureSensor system_index circuit_index) h =
     bind_pure (circuit_s h system_index circuit_index) (\<lambda>c.
       Inr (opt_float (Circuit_current_circuit_flow_temperature c)))"
| "native_value_s u (CircuitHeatingCurveSensor system_index circuit_index) h =
     bind_pure (circuit_s h system_index circuit_index) (\<lambda>c.
       case Circuit_heating_curve c of
         Some x \<Rightarrow> Inr (PyFloat (py_round x 2))
       | None \<Rightarrow> Inr PyNone)"
| "native_value_s u (CircuitMinFlowTemperatureSetpointSensor system_index circuit_index) h =
     bind_pure (circuit_s h system_index circuit_index) (\<lambda>c.
       Inr (opt_float (Circuit_min_flow_temperature_setpoint c)))"
| "native_value_s u (DomesticHotWaterTankTemperatureSensor system_index dhw_index) h =
     bind_pure (domestic_hot_water_s h system_index dhw_index) (\<lambda>d.
       Inr (opt_float (DomesticHotWater_current_dhw_temperature d)))"
| "native_value_s u (DomesticHotWaterSetPointSensor system_index dhw_index) h =
     bind_pure (domestic_hot_water_s h system_index dhw_index) (\<lambda>d.
       Inr (opt_float (DomesticHotWater_tapping_setpoint d)))"
| "native_value_s u (DomesticHotWaterOperationModeSensor system_index dhw_index) h =
     bind_pure (domestic_hot_water_s h system_index dhw_index) (\<lambda>d.
       Inr (PyStr (display_value (DomesticHotWater_operation_mode_dhw d))))"
| "native_value_s u (DomesticHotWaterCurrentSpecialFunctionSensor system_index dhw_index) h =
     bind_pure (domestic_hot_water_s h system_index dhw_index) (\<lambda>d.
       Inr (PyStr (display_value (DomesticHotWater_current_special_function d))))"
| "native_value_s u (DataSensor system_id de_index da_index unit) h =
     DataSensor_native_value_s h system_id de_index da_index"
| "native_value_s u (EfficiencySensor system_id de_index) h =
     EfficiencySensor_native_value_s u h system_id de_index"

fun unique_id_s ::
  "utils \<Rightarrow> sensor \<Rightarrow> 'a hass_scheme
   \<Rightarrow> string option result \<times> 'a hass_scheme" where
  "unique_id_s u (SystemOutdoorTemperatureSensor index) h =
     system_unique_id_s u h index ''outdoor_temperature''"
| "unique_id_s u (SystemWaterPressureSensor index) h =
     system_unique_id_s u h index (''water_pressure_'' @ str_nat index)"
| "unique_id_s u (HomeEntity system_index) h =
     system_unique_id_s u h system_index ''home''"
| "unique_id_s u (SystemDeviceWaterPressureSensor system_index device_index) h =
     bind_s (system_s h system_index) (\<lambda>s h.
     bind_pure (system_device_s h system_index device_index) (\<lambda>d.
       Inr (Some (get_unique_id_prefix u (System_id s) @ ''water_pressure_''
                  @ Device_device_uuid d))))"
| "unique_id_s u (ZoneDesiredRoomTemperatureSetpointSensor system_index zone_index) h =
     system_unique_id_s u h system_index (''zone_desired_temperature_'' @ str_nat zone_index)"
| "unique_id_s u (ZoneCurrentRoomTemperatureSensor system_index zone_index) h =
     system_unique_id_s u h system_index (''zone_current_temperature_'' @ str_nat zone_index)"
| "unique_id_s u (ZoneHumiditySensor system_index zone_index) h =
     system_unique_id_s u h system_index (''zone_humidity_'' @ str_nat zone_index)"
| "unique_id_s u (ZoneHeatingOperatingModeSensor system_index zone_index) h =
     system_unique_id_s u h system_index
       (''zone_heating_operating_mode_'' @ str_nat zone_index)"
| "unique_id_s u (ZoneHeatingStateSensor system_index zone_index) h =
     system_unique_id_s u h system_index (''zone_heating_state_'' @ str_nat zone_index)"
| "unique_id_s u (ZoneCurrentSpecialFunctionSensor system_index zone_index) h =
     system_unique_id_s u h system_index
       (''zone_current_special_function_'' @ str_nat zone_index)"
| "unique_id_s u (CircuitStateSensor system_index circuit_index) h =
     system_unique_id_s u h system_index (''circuit_state_'' @ str_nat circuit_index)"
| "unique_id_s u (CircuitFlowTemperatureSensor system_index circuit_index) h =
     system_unique_id_s u h system_index
       (''circuit_flow_temperature_'' @ str_nat circuit_index)"
| "unique_id_s u (CircuitHeatingCurveSensor system_index circuit_index) h =
     system_unique_id_s u h system_index (''circuit_heating_curve_'' @ str_nat circuit_index)"
| "unique_id_s u (CircuitMinFlowTemperatureSetpointSensor system_index circuit_index) h =
     system_unique_id_s u h system_index
       (''circuit_min_flow_temperature_setpoint_'' @ str_nat circuit_index)"
| "unique_id_s u (DomesticHotWaterTankTemperatureSensor system_index dhw_index) h =
     system_unique_id_s u h system_index (''dhw_tank_temperature_'' @ str_nat dhw_index)"
| "unique_id_s u (DomesticHotWaterSetPointSensor system_index dhw_index) h =
     system_unique_id_s u h system_index (''dhw_set_point_'' @ str_nat dhw_index)"
| "unique_id_s u (DomesticHotWaterOperationModeSensor system_index dhw_index) h =
     system_unique_id_s u h system_index (''dhw_operation_mode_'' @ str_nat dhw_index)"
| "unique_id_s u (DomesticHotWaterCurrentSpecialFunctionSensor system_index dhw_index) h =
     system_unique_id_s u h system_index
       (''dhw_current_special_function_'' @ str_nat dhw_index)"
| "unique_id_s u (DataSensor system_id de_index da_index unit) h =
     DataSensor_unique_id_s u h system_id de_index da_index"
| "unique_id_s u (EfficiencySensor system_id de_index) h =
     EfficiencySensor_unique_id_s u h system_id de_index"

definition system_sensor_name_s ::
  "utils \<Rightarrow> 'a hass_scheme \<Rightarrow> nat \<Rightarrow> string
   \<Rightarrow> string option result \<times> 'a hass_scheme" where
  "system_sensor_name_s u h system_index label =
     bind_pure (system_s h system_index) (\<lambda>s.
       Inr (Some (get_name_prefix u (Home_name (System_home s)) @ label)))"

fun name_s ::
  "utils \<Rightarrow> sensor \<Rightarrow> 'a hass_scheme
   \<Rightarrow> string option result \<times> 'a hass_scheme" where
  "name_s u (SystemOutdoorTemperatureSensor index) h =
     system_sensor_name_s u h index ''Outdoor Temperature''"
| "name_s u (SystemWaterPressureSensor index) h =
     system_sensor_name_s u h index ''System Water Pressure''"
| "name_s u (HomeEntity system_index) h =
     system_sensor_name_s u h system_index ''Firmware Version''"
| "name_s u (SystemDeviceWaterPressureSensor system_index device_index) h =
     bind_s (system_s h system_index) (\<lambda>s h.
     bind_pure (system_device_s h system_index device_index) (\<lambda>d.
       Inr (Some (get_name_prefix u (Home_name (System_home s)) @ ''Water Pressure ''
                  @ Device_name d))))"
| "name_s u (ZoneDesiredRoomTemperatureSetpointSensor system_index zone_index) h =
     zone_sensor_name_s u h ''Desired Temperature in '' system_index zone_index"
| "name_s u (ZoneCurrentRoomTemperatureSensor system_index zone_index) h =
     zone_sensor_name_s u h ''Current Temperature in '' system_index zone_index"
| "name_s u (ZoneHumiditySensor system_index zone_index) h =
     zone_sensor_name_s u h ''Humidity in '' system_index zone_index"
| "name_s u (ZoneHeatingOperatingModeSensor system_index zone_index) h =
     zone_sensor_name_s u h ''Heating Operating Mode in '' system_index zone_index"
| "name_s u (ZoneHeatingStateSensor system_index zone_index) h =
     zone_sensor_name_s u h ''Heating State in '' system_index zone_index"
| "name_s u (ZoneCurrentSpecialFunctionSensor system_index zone_index) h =
     zone_sensor_name_s u h ''Current Special Function in '' system_index zone_index"
| "name_s u (CircuitStateSensor system_index circuit_index) h =
     circuit_sensor_name_s u h ''State in Circuit '' system_index circuit_index"
| "name_s u (CircuitFlowTemperatureSensor system_index circuit_index) h =
     circuit_sensor_name_s u h ''Current Flow Temperature in Circuit '' system_index
       circuit_index"
| "name_s u (CircuitHeatingCurveSensor system_index circuit_index) h =
     circuit_sensor_name_s u h ''Heating Curve in Circuit '' system_index circuit_index"
| "name_s u (CircuitMinFlowTemperatureSetpointSensor system_index circuit_index) h =
     circuit_sensor_name_s u h ''Min Flow Temperature Setpoint in Circuit '' system_index
       circuit_index"
| "name_s u (DomesticHotWaterTankTemperatureSensor system_index dhw_index) h =
     dhw_sensor_name_s u h ''Tank Temperature Domestic Hot Water '' system_index dhw_index"
| "name_s u (DomesticHotWaterSetPointSensor system_index dhw_index) h =
     dhw_sensor_name_s u h ''Setpoint Domestic Hot Water '' system_index dhw_index"
| "name_s u (DomesticHotWaterOperationModeSensor system_index dhw_index) h =
     dhw_sensor_name_s u h ''Operation Mode Domestic Hot Water '' system_index dhw_index"
| "name_s u (DomesticHotWaterCurrentSpecialFunctionSensor system_index dhw_index) h =
     dhw_sensor_name_s u h ''Current Special Function Domestic Hot Water '' system_index
       dhw_index"
| "name_s u (DataSensor system_id de_index da_index unit) h =
     DataSensor_name_s u h system_id de_index da_index"
| "name_s u (EfficiencySensor system_id de_index) h =
     EfficiencySensor_name_s u h system_id de_index"

definition SystemSensor_device_info_s ::
  "utils \<Rightarrow> 'a hass_scheme \<Rightarrow> nat
   \<Rightarrow> DeviceInfo option result \<times> 'a hass_scheme" where
  "SystemSensor_device_info_s u h index =
     bind_pure (system_s h index) (\<lambda>s.
       Inr (Some (identifiers_only [(DOMAIN u, ''home_'' @ System_id s)])))"

definition HomeEntity_device_info_s ::
  "utils \<Rightarrow> 'a hass_scheme \<Rightarrow> nat
   \<Rightarrow> DeviceInfo option result \<times> 'a hass_scheme" where
  "HomeEntity_device_info_s u h system_index =
     bind_pure (system_s h system_index) (\<lambda>s.
       Inr (Some
         \<lparr>identifiers = [(DOMAIN u, ''home_'' @ System_id s)],
          DeviceInfo_name = Some (Home_name (System_home s)),
          manufacturer = Some (System_brand_name s),
          model = Some (Home_nomenclature (System_home s)),
          sw_version = Some (Home_firmware_version (System_home s))\<rparr>))"

definition ZoneEntity_device_info_s ::
  "utils \<Rightarrow> 'a hass_scheme \<Rightarrow> nat \<Rightarrow> nat
   \<Rightarrow> DeviceInfo option result \<times> 'a hass_scheme" where
  "ZoneEntity_device_info_s u h system_index zone_index =
     bind_s (system_s h system_index) (\<lambda>s h.
     bind_s (zone_s h system_index zone_index) (\<lambda>z h.
     bind_pure (circuit_name_suffix_s h system_index zone_index) (\<lambda>suffix.
       Inr (Some
         \<lparr>identifiers =
            [(DOMAIN u, ''zone_'' @ System_id s @ ''_'' @ str_int (Zone_index z))],
          DeviceInfo_name =
            Some (get_name_prefix u (Home_name (System_home s)) @ ''Zone '' @ Zone_name z
                  @ suffix),
          manufacturer = Some (System_brand_name s),
          model = None,
          sw_version = None\<rparr>))))"

definition CircuitSensor_device_info_s ::
  "utils \<Rightarrow> 'a hass_scheme \<Rightarrow> nat \<Rightarrow> nat
   \<Rightarrow> DeviceInfo option result \<times> 'a hass_scheme" where
  "CircuitSensor_device_info_s u h system_index circuit_index =
     bind_s (system_s h system_index) (\<lambda>s h.
     bind_pure (circuit_s h system_index circuit_index) (\<lambda>c.
       Inr (Some (identifiers_only
         [(DOMAIN u, ''circuit_'' @ System_id s @ ''_'' @ str_int (Circuit_index c))]))))"

definition DomesticHotWaterSensor_device_info_s ::
  "utils \<Rightarrow> 'a hass_scheme \<Rightarrow> nat \<Rightarrow> nat
   \<Rightarrow> DeviceInfo option result \<times> 'a hass_scheme" where
  "DomesticHotWaterSensor_device_info_s u h system_index dhw_index =
     bind_s (system_s h system_index) (\<lambda>s h.
     bind_pure (domestic_hot_water_s h system_index dhw_index) (\<lambda>d.
       Inr (Some (identifiers_only
         [(DOMAIN u, ''domestic_hot_water_'' @ System_id s @ ''_''
                     @ str_int (DomesticHotWater_index d))]))))"

definition SystemDeviceSensor_device_info_s ::
  "utils \<Rightarrow> 'a hass_scheme \<Rightarrow> nat
   \<Rightarrow> DeviceInfo option result \<times> 'a hass_scheme" where
  "SystemDeviceSensor_device_info_s u h system_index =
     bind_pure (system_s h system_index) (\<lambda>s.
       Inr (Some (identifiers_only [(DOMAIN u, ''system_'' @ System_id s)])))"

fun device_info_s ::
  "utils \<Rightarrow> sensor \<Rightarrow> 'a hass_scheme
   \<Rightarrow> DeviceInfo option result \<times> 'a hass_scheme" where
  "device_info_s u (SystemOutdoorTemperatureSensor index) h = SystemSensor_device_info_s u h index"
| "device_info_s u (SystemWaterPressureSensor index) h = SystemSensor_device_info_s u h index"
| "device_info_s u (HomeEntity system_index) h = HomeEntity_device_info_s u h system_index"
| "device_info_s u (SystemDeviceWaterPressureSensor system_index device_index) h =
     SystemDeviceSensor_device_info_s u h system_index"
| "device_info_s u (ZoneDesiredRoomTemperatureSetpointSensor system_index zone_index) h =
     ZoneEntity_device_info_s u h system_index zone_index"
| "device_info_s u (ZoneCurrentRoomTemperatureSensor system_index zone_index) h =
     ZoneEntity_device_info_s u h system_index zone_index"
| "device_info_s u (ZoneHumiditySensor system_index zone_index) h =
     ZoneEntity_device_info_s u h system_index zone_index"
| "device_info_s u (ZoneHeatingOperatingModeSensor system_index zone_index) h =
     ZoneEntity_device_info_s u h system_index zone_index"
| "device_info_s u (ZoneHeatingStateSensor system_index zone_index) h =
     ZoneEntity_device_info_s u h system_index zone_index"
| "device_info_s u (ZoneCurrentSpecialFunctionSensor system_index zone_index) h =
     ZoneEntity_device_info_s u h system_index zone_index"
| "device_info_s u (CircuitStateSensor system_index circuit_index) h =
     CircuitSensor_device_info_s u h system_index circuit_index"
| "device_info_s u (CircuitFlowTemperatureSensor system_index circuit_index) h =
     CircuitSensor_device_info_s u h system_index circuit_index"
| "device_info_s u (CircuitHeatingCurveSensor system_index circuit_index) h =
     CircuitSensor_device_info_s u h system_index circuit_index"
| "device_info_s u (CircuitMinFlowTemperatureSetpointSensor system_index circuit_index) h =
     CircuitSensor_device_info_s u h system_index circuit_index"
| "device_info_s u (DomesticHotWaterTankTemperatureSensor system_index dhw_index) h =
     DomesticHotWaterSensor_device_info_s u h system_index dhw_index"
| "device_info_s u (DomesticHotWaterSetPointSensor system_index dhw_index) h =
     DomesticHotWaterSensor_device_info_s u h system_index dhw_index"
| "device_info_s u (DomesticHotWaterOperationModeSensor system_index dhw_index) h =
     DomesticHotWaterSensor_device_info_s u h system_index dhw_index"
| "device_info_s u (DomesticHotWaterCurrentSpecialFunctionSensor system_index dhw_index) h =
     DomesticHotWaterSensor_device_info_s u h system_index dhw_index"
| "device_info_s u (DataSensor system_id de_index da_index unit) h =
     DataSensor_device_info_s u h system_id de_index da_index"
| "device_info_s u (EfficiencySensor system_id de_index) h =
     EfficiencySensor_device_info_s u h system_id de_index"

fun extra_state_attributes_s ::
  "sensor \<Rightarrow> 'a hass_scheme
   \<Rightarrow> (string, py_any) py_dict option result \<times> 'a hass_scheme" where
  "extra_state_attributes_s (HomeEntity system_index) h =
     bind_pure (system_s h system_index) (\<lambda>s.
       Inr (Some (dict_union (Home_extra_fields (System_home s)) (System_extra_fields s))))"
| "extra_state_attributes_s (CircuitStateSensor system_index circuit_index) h =
     bind_pure (circuit_s h system_index circuit_index) (\<lambda>c.
       Inr (Some (Circuit_extra_fields c)))"
| "extra_state_attributes_s s h = (Inr None, h)"

definition DataSensor_init_s ::
  "utils \<Rightarrow> 'a hass_scheme \<Rightarrow> string \<Rightarrow> nat \<Rightarrow> nat
   \<Rightarrow> sensor result \<times> 'a hass_scheme" where
  "DataSensor_init_s u h system_id de_index da_index =
     bind_s (device_data_s h system_id de_index da_index) (\<lambda>dd h.
       let self = DataSensor system_id de_index da_index (select_unit dd)
       in bind_s (name_s u self h) (\<lambda>_ h.
          bind_s (native_value_s u self h) (\<lambda>_ h.
          bind_pure (unique_id_s u self h) (\<lambda>_.
            Inr self))))"

subsection \<open>The factory functions\<close>

text \<open>
  The state of a running factory function: the coordinators and the list that its local
  variable \<open>sensors\<close> names. \<open>sensors.append(x)\<close> changes that list in place.
\<close>

record py_state = hass +
  local_sensors :: "sensor list"

definition append_sensor :: "sensor \<Rightarrow> 'a py_state_scheme \<Rightarrow> 'a py_state_scheme" where
  "append_sensor x st = st\<lparr>local_sensors := local_sensors st @ [x]\<rparr>"

definition device_loop_s ::
  "nat \<Rightarrow> nat \<times> Device \<Rightarrow> 'a py_state_scheme \<Rightarrow> 'a py_state_scheme" where
  "device_loop_s index = (\<lambda>(device_index, device) st.
     if dict_contains ''water_pressure'' (Device_operational_data device)
     then append_sensor (SystemDeviceWaterPressureSensor index device_index) st
     else st)"

definition zone_loop_s ::
  "nat \<Rightarrow> nat \<times> Zone \<Rightarrow> 'a py_state_scheme \<Rightarrow> 'a py_state_scheme" where
  "zone_loop_s index = (\<lambda>(zone_index, zone) st.
     let st = append_sensor (ZoneDesiredRoomTemperatureSetpointSensor index zone_index) st;
         st = (if Zone_current_room_temperature zone \<noteq> None
               then append_sensor (ZoneCurrentRoomTemperatureSensor index zone_index) st
               else st);
         st = (if Zone_current_room_humidity zone \<noteq> None
               then append_sensor (ZoneHumiditySensor index zone_index) st
               else st);
         st = append_sensor (ZoneHeatingOperatingModeSensor index zone_index) st;
         st = append_sensor (ZoneHeatingStateSensor index zone_index) st;
         st = append_sensor (ZoneCurrentSpecialFunctionSensor index zone_index) st
     in st)"

definition circuit_loop_s ::
  "nat \<Rightarrow> nat \<times> Circuit \<Rightarrow> 'a py_state_scheme \<Rightarrow> 'a py_state_scheme" where
  "circuit_loop_s index = (\<lambda>(circuit_index, circuit) st.
     let st = append_sensor (CircuitStateSensor index circuit_index) st;
         st = (if Circuit_current_circuit_flow_temperature circuit \<noteq> None
               then append_sensor (CircuitFlowTemperatureSensor index circuit_index) st
               else st);
         st = (if Circuit_heating_curve circuit \<noteq> None
               then append_sensor (CircuitHeatingCurveSensor index circuit_index) st
               else st);
         st = (if Circuit_min_flow_temperature_setpoint circuit \<noteq> None
               then append_sensor (CircuitMinFlowTemperatureSetpointSensor index circuit_index) st
               else st)
     in st)"

definition dhw_loop_s ::
  "nat \<Rightarrow> nat \<times> DomesticHotWater \<Rightarrow> 'a py_state_scheme \<Rightarrow> 'a py_state_scheme" where
  "dhw_loop_s index = (\<lambda>(dhw_index, dhw) st.
     let st = (if truthy (DomesticHotWater_current_dhw_temperature dhw)
               then append_sensor (DomesticHotWaterTankTemperatureSensor index dhw_index) st
               else st);
         st = append_sensor (DomesticHotWaterSetPointSensor index dhw_index) st;
         st = append_sensor (DomesticHotWaterOperationModeSensor index dhw_index) st;
         st = append_sensor (DomesticHotWaterCurrentSpecialFunctionSensor index dhw_index) st
     in st)"

definition system_loop_s :: "nat \<times> System \<Rightarrow> 'a py_state_scheme \<Rightarrow> 'a py_state_scheme" where
  "system_loop_s = (\<lambda>(index, sy) st.
     let st = (if System_outdoor_temperature sy \<noteq> None
               then append_sensor (SystemOutdoorTemperatureSensor index) st
               else st);
         st = (if System_water_pressure sy \<noteq> None
               then append_sensor (SystemWaterPressureSensor index) st
               else st);
         st = append_sensor (HomeEntity index) st;
         st = fold (device_loop_s index) (enumerate 0 (System_devices sy)) st;
         st = fold (zone_loop_s index) (enumerate 0 (System_zones sy)) st;
         st = fold (circuit_loop_s index) (enumerate 0 (System_circuits sy)) st;
         st = fold (dhw_loop_s index) (enumerate 0 (System_domestic_hot_water sy)) st
     in st)"

text \<open>
  An early \<open>return []\<close> leaves the state as it is; otherwise \<open>sensors\<close> starts as the
  empty list and the function returns the list that the loops have filled.
\<close>

definition create_system_sensors_s ::
  "'a py_state_scheme \<Rightarrow> sensor list result \<times> 'a py_state_scheme" where
  "create_system_sensors_s st =
     (case system_coordinator_data st of
        None \<Rightarrow> (Inr [], st)
      | Some data \<Rightarrow>
          if data = [] then (Inr [], st)
          else
            let st = st\<lparr>local_sensors := []\<rparr>;
                st = fold system_loop_s (enumerate 0 data) st
            in (Inr (local_sensors st), st))"

text \<open>A loop in state-passing form whose body may raise.\<close>

fun fold_s :: "('a \<Rightarrow> 's \<Rightarrow> unit result \<times> 's) \<Rightarrow> 'a list \<Rightarrow> 's \<Rightarrow> unit result \<times> 's" where
  "fold_s f [] st = (Inr (), st)"
| "fold_s f (x # xs) st = bind_s (f x st) (\<lambda>_ st. fold_s f xs st)"

definition data_loop_s ::
  "utils \<Rightarrow> string \<Rightarrow> nat \<Rightarrow> nat \<times> DeviceData \<Rightarrow> 'a py_state_scheme
   \<Rightarrow> unit result \<times> 'a py_state_scheme" where
  "data_loop_s u system_id de_index = (\<lambda>(da_index, _) st.
     bind_s (DataSensor_init_s u st system_id de_index da_index) (\<lambda>s st.
       (Inr (), append_sensor s st)))"

definition devices_data_loop_s ::
  "utils \<Rightarrow> string \<Rightarrow> nat \<times> DeviceData list \<Rightarrow> 'a py_state_scheme
   \<Rightarrow> unit result \<times> 'a py_state_scheme" where
  "devices_data_loop_s u system_id = (\<lambda>(de_index, device_datas) st.
     if length device_datas = 0 then (Inr (), st)
     else
       let st = append_sensor (EfficiencySensor system_id (Some de_index)) st
       in bind_s (daily_data_getitem_s st system_id) (\<lambda>sd st.
          bind_s (list_getitem (devices_data sd) de_index, st) (\<lambda>row st.
            fold_s (data_loop_s u system_id de_index) (enumerate 0 row) st)))"

definition daily_system_loop_s ::
  "utils \<Rightarrow> string \<times> SystemDevices \<Rightarrow> 'a py_state_scheme
   \<Rightarrow> unit result \<times> 'a py_state_scheme" where
  "daily_system_loop_s u = (\<lambda>(system_id, system_devices) st.
     let st = append_sensor (EfficiencySensor system_id None) st
     in fold_s (devices_data_loop_s u system_id)
          (enumerate 0 (devices_data system_devices)) st)"

definition create_daily_data_sensors_s ::
  "utils \<Rightarrow> 'a py_state_scheme \<Rightarrow> sensor list result \<times> 'a py_state_scheme" where
  "create_daily_data_sensors_s u st =
     (case daily_data_coordinator_data st of
        None \<Rightarrow> (Inr [], st)
      | Some data \<Rightarrow>
          if data = [] then (Inr [], st)
          else
            let st = st\<lparr>local_sensors := []\<rparr>
            in bind_s (fold_s (daily_system_loop_s u) data st) (\<lambda>_ st.
                 (Inr (local_sensors st), st)))"

section \<open>Notions used in the statements\<close>

text \<open>The sensors of a system itself, as opposed to those of its parts.\<close>

fun system_level :: "sensor \<Rightarrow> bool" where
  "system_level (SystemOutdoorTemperatureSensor i) = True"
| "system_level (SystemWaterPressureSensor i) = True"
| "system_level (HomeEntity i) = True"
| "system_level s = False"

text \<open>The system id and the device index that a daily data sensor stores.\<close>

fun daily_system_id :: "sensor \<Rightarrow> string option" where
  "daily_system_id (DataSensor system_id de_index da_index unit) = Some system_id"
| "daily_system_id (EfficiencySensor system_id de_index) = Some system_id"
| "daily_system_id s = None"

fun daily_de_index :: "sensor \<Rightarrow> nat option" where
  "daily_de_index (DataSensor system_id de_index da_index unit) = Some de_index"
| "daily_de_index (EfficiencySensor system_id de_index) = de_index"
| "daily_de_index s = None"

text \<open>A DataSensor with the given system id and indices, whatever its unit.\<close>

fun is_data_sensor_at :: "string \<Rightarrow> nat \<Rightarrow> nat \<Rightarrow> sensor \<Rightarrow> bool" where
  "is_data_sensor_at system_id de_index da_index (DataSensor system_id' de_index' da_index' unit) =
     (system_id' = system_id \<and> de_index' = de_index \<and> da_index' = da_index)"
| "is_data_sensor_at system_id de_index da_index s = False"

text \<open>
  What \<open>create_daily_data_sensors\<close> returns for one system and for one of its device
  data lists, in closed form.
\<close>

definition unit_at :: "SystemDevices \<Rightarrow> nat \<Rightarrow> nat \<Rightarrow> string option" where
  "unit_at sd de_index da_index = select_unit (Some (devices_data sd ! de_index ! da_index))"

definition device_block ::
  "string \<Rightarrow> SystemDevices \<Rightarrow> nat \<times> DeviceData list \<Rightarrow> sensor list" where
  "device_block system_id sd = (\<lambda>(de_index, row).
     if row = [] then []
     else EfficiencySensor system_id (Some de_index)
          # map (\<lambda>da_index.
                   DataSensor system_id de_index da_index (unit_at sd de_index da_index))
              [0..<length row])"

definition system_block :: "string \<times> SystemDevices \<Rightarrow> sensor list" where
  "system_block = (\<lambda>(system_id, sd).
     EfficiencySensor system_id None
     # concat (map (device_block system_id sd) (enumerate 0 (devices_data sd))))"

text \<open>The five energy types that the specification names as known.\<close>

definition known_energy_types :: "string set" where
  "known_energy_types =
     {''CONSUMED_ELECTRICAL_ENERGY'', ''EARNED_ENVIRONMENT_ENERGY'', ''HEAT_GENERATED'',
      ''CONSUMED_PRIMARY_ENERGY'', ''EARNED_SOLAR_ENERGY''}"

text \<open>
  The cached data that a sensor reads, \<open>self.coordinator.data\<close>: the daily data
  sensors hold the daily-data coordinator, all others the system coordinator. The class
  and the stored indices of a sensor are the sensor without the unit.
\<close>

datatype cached_data =
    SystemData "System list option"
  | DailyData "(string, SystemDevices) py_dict option"

fun coordinator_data :: "sensor \<Rightarrow> 'a hass_scheme \<Rightarrow> cached_data" where
  "coordinator_data (DataSensor system_id de_index da_index unit) h =
     DailyData (daily_data_coordinator_data h)"
| "coordinator_data (EfficiencySensor system_id de_index) h =
     DailyData (daily_data_coordinator_data h)"
| "coordinator_data s h = SystemData (system_coordinator_data h)"

fun stored_indices :: "sensor \<Rightarrow> sensor" where
  "stored_indices (DataSensor system_id de_index da_index unit) =
     DataSensor system_id de_index da_index None"
| "stored_indices s = s"

section \<open>Example data\<close>

text \<open>
  Arithmetic without rounding. It is the arithmetic of doubles wherever the exact result
  is a double, as are the sums and the quotient of the example data.
\<close>

definition exact_arith :: float_arith where
  "exact_arith = \<lparr>float_sum = sum_list, float_truediv = (\<lambda>a b. a / b)\<rparr>"

definition example_utils :: utils where
  "example_utils =
     \<lparr>DOMAIN = ''mypyllant'',
      get_name_prefix = (\<lambda>home. home @ '' ''),
      get_unique_id_prefix = (\<lambda>system_id. ''mypyllant_'' @ system_id @ ''_''),
      arithmetic = exact_arith\<rparr>"



definition example_home :: Home where
  "example_home =
     \<lparr>Home_name = ''Home'', Home_nomenclature = ''VR 921'',
      Home_firmware_version = ''0357.40.32'', Home_extra_fields = []\<rparr>"

text \<open>A hot water unit whose tank reports 0.0 degrees.\<close>

definition example_dhw :: DomesticHotWater where
  "example_dhw =
     \<lparr>DomesticHotWater_index = 255,
      DomesticHotWater_current_dhw_temperature = Some 0,
      DomesticHotWater_tapping_setpoint = Some 50,
      DomesticHotWater_operation_mode_dhw = \<lparr>display_value = ''Off''\<rparr>,
      DomesticHotWater_current_special_function = \<lparr>display_value = ''Regular''\<rparr>\<rparr>"

definition example_system :: System where
  "example_system =
     \<lparr>System_id = ''s1'',
      System_outdoor_temperature = Some (2146 / 100),
      System_water_pressure = None,
      System_brand_name = ''vaillant'',
      System_home = example_home,
      System_extra_fields = [],
      System_devices = [],
      System_zones = [],
      System_circuits = [],
      System_domestic_hot_water = [example_dhw]\<rparr>"

definition example_device :: Device where
  "example_device =
     \<lparr>Device_name = ''aroTHERM'', Device_device_uuid = ''d1'',
      Device_name_display = ''aroTHERM plus'', Device_brand_name = ''vaillant'',
      Device_product_name_display = ''aroTHERM plus'', Device_operational_data = []\<rparr>"

definition consumed_data :: DeviceData where
  "consumed_data =
     \<lparr>DeviceData_device = Some example_device,
      DeviceData_data = [\<lparr>DeviceDataBucket_value = Some 1500\<rparr>],
      DeviceData_energy_type = Some ''CONSUMED_ELECTRICAL_ENERGY'',
      DeviceData_operation_mode = ''DOMESTIC_HOT_WATER''\<rparr>"

definition generated_data :: DeviceData where
  "generated_data =
     \<lparr>DeviceData_device = Some example_device,
      DeviceData_data = [\<lparr>DeviceDataBucket_value = Some 4500\<rparr>],
      DeviceData_energy_type = Some ''HEAT_GENERATED'',
      DeviceData_operation_mode = ''DOMESTIC_HOT_WATER''\<rparr>"

definition example_devices :: SystemDevices where
  "example_devices =
     \<lparr>devices_data = [[consumed_data, generated_data], []], home_name = ''Home''\<rparr>"

definition example_hass :: hass where
  "example_hass =
     \<lparr>system_coordinator_data = Some [example_system],
      daily_data_coordinator_data = Some [(''s1'', example_devices)]\<rparr>"



text \<open>A state before the first poll of the system coordinator, with an empty daily dict.\<close>

definition empty_hass :: hass where
  "empty_hass = \<lparr>system_coordinator_data = None, daily_data_coordinator_data = Some []\<rparr>"

text \<open>A state of the host that differs from the example in everything but the daily data.\<close>

definition other_state :: ha_state where
  "other_state =
     \<lparr>system_coordinator_data = None,
      daily_data_coordinator_data = Some [(''s1'', example_devices)],
      entities = [HomeEntity 0]\<rparr>"

text \<open>
  A state of a factory function: the example data, and in \<open>local_sensors\<close> whatever
  the list held before the function ran.
\<close>

definition example_state :: py_state where
  "example_state =
     \<lparr>system_coordinator_data = Some [example_system],
      daily_data_coordinator_data = Some [(''s1'', example_devices)],
      local_sensors = [HomeEntity 7]\<rparr>"

section \<open>Lemmas on lists and results\<close>

lemma result_bind_Inr [simp]: "result_bind (Inr x) f = f x"
  by (simp add: result_bind_def)

lemma result_bind_Inl [simp]: "result_bind (Inl e) f = Inl e"
  by (simp add: result_bind_def)

lemma fold_append_concat:
  assumes "\<And>x acc. f x acc = acc @ f x []"
  shows "fold f xs acc = acc @ concat (map (\<lambda>x. f x []) xs)"
proof (induction xs arbitrary: acc)
  case Nil
  show ?case by simp
next
  case (Cons x xs)
  have "fold f (x # xs) acc = fold f xs (f x acc)" by simp
  also have "\<dots> = f x acc @ concat (map (\<lambda>x. f x []) xs)" by (rule Cons.IH)
  also have "f x acc = acc @ f x []" by (rule assms)
  finally show ?case by simp
qed

lemma fold_result_append:
  assumes "\<And>x acc. x \<in> set xs \<Longrightarrow> f x acc = Inr (acc @ g x)"
  shows "fold_result f xs acc = Inr (acc @ concat (map g xs))"
  using assms by (induction xs arbitrary: acc) simp_all

lemma filter_concat_nil:
  "(\<And>x. x \<in> set xs \<Longrightarrow> filter P (g x) = []) \<Longrightarrow> filter P (concat (map g xs)) = []"
  by (induction xs) simp_all

text \<open>In an enumerated list, only the entry at index \<open>k\<close> can contribute.\<close>

lemma filter_concat_enumerate:
  assumes "\<And>j x. j \<noteq> k \<Longrightarrow> filter P (g (j, x)) = []"
    and "n \<le> k" and "k < n + length xs"
  shows "filter P (concat (map g (enumerate n xs))) = filter P (g (k, xs ! (k - n)))"
  using assms(2,3)
proof (induction xs arbitrary: n)
  case Nil
  then show ?case by simp
next
  case (Cons x xs)
  show ?case
  proof (cases "k = n")
    case True
    have "filter P (concat (map g (enumerate (Suc n) xs))) = []"
      by (rule filter_concat_nil) (use True assms(1) in \<open>auto simp: in_set_enumerate_eq\<close>)
    with True show ?thesis by simp
  next
    case False
    with Cons.prems have "Suc n \<le> k" "k < Suc n + length xs" by simp_all
    from Cons.IH[OF this] False assms(1)[of n x] Cons.prems show ?thesis
      by (simp add: Suc_diff_le)
  qed
qed

text \<open>In a dict, only the entry of key \<open>k\<close> can contribute.\<close>

lemma filter_concat_key:
  assumes "distinct (map fst d)" and "(k, v) \<in> set d"
    and "\<And>k' v'. k' \<noteq> k \<Longrightarrow> filter P (g (k', v')) = []"
  shows "filter P (concat (map g d)) = filter P (g (k, v))"
  using assms(1,2)
proof (induction d)
  case Nil
  then show ?case by simp
next
  case (Cons x d)
  show ?case
  proof (cases "x = (k, v)")
    case True
    with Cons.prems have "k \<notin> fst ` set d" by auto
    then have "filter P (concat (map g d)) = []"
      by (intro filter_concat_nil) (metis assms(3) image_eqI prod.collapse)
    with True show ?thesis by simp
  next
    case False
    with Cons.prems have in_d: "(k, v) \<in> set d" by simp
    then have "k \<in> fst ` set d" by force
    with Cons.prems have "fst x \<noteq> k" by auto
    with Cons in_d assms(3)[of "fst x" "snd x"] show ?thesis by simp
  qed
qed

lemma count_list_filter: "count_list xs x = length (filter (\<lambda>y. y = x) xs)"
  by (induction xs) simp_all

lemma length_filter_upt: "length (filter (\<lambda>i. i = k) [0..<n]) = (if k < n then 1 else 0)"
  by (induction n) auto

lemma concat_singletons_enumerate:
  "concat (map (\<lambda>(i, x). [f i]) (enumerate n xs)) = map f [n..<n + length xs]"
proof -
  have "length js = length xs \<Longrightarrow> concat (map (\<lambda>(i, x). [f i]) (zip js xs)) = map f js"
    for js
    by (induction js xs rule: list_induct2) simp_all
  then show ?thesis by (simp add: enumerate_eq_zip)
qed

section \<open>What create_system_sensors returns\<close>

lemma device_loop_append: "device_loop index p sensors = sensors @ device_loop index p []"
  by (cases p) (simp add: device_loop_def)

lemma zone_loop_append: "zone_loop index p sensors = sensors @ zone_loop index p []"
  by (cases p) (simp add: zone_loop_def Let_def)

lemma circuit_loop_append: "circuit_loop index p sensors = sensors @ circuit_loop index p []"
  by (cases p) (simp add: circuit_loop_def Let_def)

lemma dhw_loop_append: "dhw_loop index p sensors = sensors @ dhw_loop index p []"
  by (cases p) (simp add: dhw_loop_def Let_def)

lemma system_loop_eq:
  "system_loop (index, sy) sensors =
     sensors
     @ (if System_outdoor_temperature sy \<noteq> None
        then [SystemOutdoorTemperatureSensor index] else [])
     @ (if System_water_pressure sy \<noteq> None
        then [SystemWaterPressureSensor index] else [])
     @ [HomeEntity index]
     @ concat (map (\<lambda>p. device_loop index p []) (enumerate 0 (System_devices sy)))
     @ concat (map (\<lambda>p. zone_loop index p []) (enumerate 0 (System_zones sy)))
     @ concat (map (\<lambda>p. circuit_loop index p []) (enumerate 0 (System_circuits sy)))
     @ concat (map (\<lambda>p. dhw_loop index p []) (enumerate 0 (System_domestic_hot_water sy)))"
  unfolding system_loop_def Let_def prod.case
  by (simp add: fold_append_concat[of "device_loop index", OF device_loop_append]
      fold_append_concat[of "zone_loop index", OF zone_loop_append]
      fold_append_concat[of "circuit_loop index", OF circuit_loop_append]
      fold_append_concat[of "dhw_loop index", OF dhw_loop_append])

lemma system_loop_append: "system_loop p sensors = sensors @ system_loop p []"
  by (cases p) (simp add: system_loop_eq)

lemma create_system_sensors_eq:
  "system_coordinator_data h = Some data \<Longrightarrow>
   create_system_sensors h = concat (map (\<lambda>p. system_loop p []) (enumerate 0 data))"
  by (simp add: create_system_sensors_def
      fold_append_concat[of system_loop, OF system_loop_append])

lemma filter_system_loop:
  assumes np: "\<And>s. \<not> system_level s \<Longrightarrow> \<not> P s"
  shows "filter P (system_loop (index, sy) []) =
     filter P ((if System_outdoor_temperature sy \<noteq> None
        then [SystemOutdoorTemperatureSensor index] else [])
     @ (if System_water_pressure sy \<noteq> None
        then [SystemWaterPressureSensor index] else [])
     @ [HomeEntity index])"
proof -
  have d: "filter P (device_loop index p []) = []" for p
    by (cases p) (simp add: device_loop_def np)
  have z: "filter P (zone_loop index p []) = []" for p
    by (cases p) (simp add: zone_loop_def Let_def np)
  have c: "filter P (circuit_loop index p []) = []" for p
    by (cases p) (simp add: circuit_loop_def Let_def np)
  have w: "filter P (dhw_loop index p []) = []" for p
    by (cases p) (simp add: dhw_loop_def Let_def np)
  have t: "filter P (concat (map (\<lambda>p. device_loop index p []) ds)) = []"
    "filter P (concat (map (\<lambda>p. zone_loop index p []) zs)) = []"
    "filter P (concat (map (\<lambda>p. circuit_loop index p []) cs)) = []"
    "filter P (concat (map (\<lambda>p. dhw_loop index p []) ws)) = []" for ds zs cs ws
    by (rule filter_concat_nil, rule d z c w)+
  show ?thesis
    unfolding system_loop_eq by (simp add: t)
qed

lemma filter_create_system_sensors:
  assumes "system_coordinator_data h = Some data" and "i < length data"
    and np: "\<And>s. \<not> system_level s \<Longrightarrow> \<not> P s"
    and ni: "\<And>j. j \<noteq> i \<Longrightarrow>
      \<not> P (SystemOutdoorTemperatureSensor j) \<and> \<not> P (SystemWaterPressureSensor j)
      \<and> \<not> P (HomeEntity j)"
  shows "filter P (create_system_sensors h) =
     filter P ((if System_outdoor_temperature (data ! i) \<noteq> None
        then [SystemOutdoorTemperatureSensor i] else [])
     @ (if System_water_pressure (data ! i) \<noteq> None
        then [SystemWaterPressureSensor i] else [])
     @ [HomeEntity i])"
proof -
  have "filter P (system_loop (j, x) []) = []" if "j \<noteq> i" for j x
    using ni[OF that] by (simp add: filter_system_loop[of P, OF np])
  from filter_concat_enumerate[of i P "\<lambda>p. system_loop p []" 0 data, OF this] assms(1,2)
  show ?thesis by (simp add: create_system_sensors_eq filter_system_loop[of P, OF np])
qed

lemma example_create_system_sensors:
  "create_system_sensors example_hass =
     [SystemOutdoorTemperatureSensor 0, HomeEntity 0, DomesticHotWaterSetPointSensor 0 0,
      DomesticHotWaterOperationModeSensor 0 0, DomesticHotWaterCurrentSpecialFunctionSensor 0 0]"
  by code_simp

text \<open>
  The tank temperature sensor of a hot water unit is created exactly when the reported
  temperature is true in the sense of Python: present and not zero.
\<close>

lemma bex_enumerate_index:
  "(\<exists>p \<in> set (enumerate 0 xs). fst p = j \<and> Q (snd p)) = (j < length xs \<and> Q (xs ! j))"
proof
  assume "\<exists>p \<in> set (enumerate 0 xs). fst p = j \<and> Q (snd p)"
  then obtain p where "p \<in> set (enumerate 0 xs)" "fst p = j" "Q (snd p)" by blast
  then show "j < length xs \<and> Q (xs ! j)" by (auto simp: in_set_enumerate_eq)
next
  assume a: "j < length xs \<and> Q (xs ! j)"
  then have "(j, xs ! j) \<in> set (enumerate 0 xs)" by (simp add: in_set_enumerate_eq)
  with a show "\<exists>p \<in> set (enumerate 0 xs). fst p = j \<and> Q (snd p)"
    by (intro bexI[of _ "(j, xs ! j)"]) simp_all
qed

lemma tank_in_system_loop:
  "(DomesticHotWaterTankTemperatureSensor i j \<in> set (system_loop (k, sy) [])) =
   (k = i \<and> j < length (System_domestic_hot_water sy)
    \<and> truthy (DomesticHotWater_current_dhw_temperature (System_domestic_hot_water sy ! j)))"
proof -
  let ?T = "DomesticHotWaterTankTemperatureSensor i j"
  have d: "?T \<notin> set (device_loop k p [])" for p
    by (cases p) (simp add: device_loop_def)
  have z: "?T \<notin> set (zone_loop k p [])" for p
    by (cases p) (simp add: zone_loop_def Let_def)
  have c: "?T \<notin> set (circuit_loop k p [])" for p
    by (cases p) (simp add: circuit_loop_def Let_def)
  have w: "(?T \<in> set (dhw_loop k p []))
         = (k = i \<and> fst p = j \<and> truthy (DomesticHotWater_current_dhw_temperature (snd p)))"
    for p
    by (cases p) (auto simp: dhw_loop_def Let_def)
  have "(?T \<in> set (system_loop (k, sy) [])) =
        (\<exists>p \<in> set (enumerate 0 (System_domestic_hot_water sy)). ?T \<in> set (dhw_loop k p []))"
    unfolding system_loop_eq by (auto simp: d z c)
  also have "\<dots> = (k = i \<and> j < length (System_domestic_hot_water sy)
    \<and> truthy (DomesticHotWater_current_dhw_temperature (System_domestic_hot_water sy ! j)))"
    unfolding w
    using bex_enumerate_index[of "System_domestic_hot_water sy" j
        "\<lambda>x. truthy (DomesticHotWater_current_dhw_temperature x)"]
    by auto
  finally show ?thesis .
qed

lemma create_system_sensors_dhw_tank:
  assumes "system_coordinator_data h = Some data" and "i < length data"
    and "j < length (System_domestic_hot_water (data ! i))"
  shows "(DomesticHotWaterTankTemperatureSensor i j \<in> set (create_system_sensors h)) =
         truthy (DomesticHotWater_current_dhw_temperature
                   (System_domestic_hot_water (data ! i) ! j))"
proof -
  have "(DomesticHotWaterTankTemperatureSensor i j \<in> set (create_system_sensors h)) =
        (\<exists>p \<in> set (enumerate 0 data).
           DomesticHotWaterTankTemperatureSensor i j \<in> set (system_loop (fst p, snd p) []))"
    by (simp add: create_system_sensors_eq[OF assms(1)])
  also have "\<dots> = truthy (DomesticHotWater_current_dhw_temperature
                   (System_domestic_hot_water (data ! i) ! j))"
    unfolding tank_in_system_loop
    using assms(2,3) bex_enumerate_index[of data i
        "\<lambda>x. j < length (System_domestic_hot_water x)
           \<and> truthy (DomesticHotWater_current_dhw_temperature (System_domestic_hot_water x ! j))"]
    by simp
  finally show ?thesis .
qed

text \<open>
  C1. For every domestic hot water unit whose \<open>current_dhw_temperature\<close> is not
  \<open>None\<close>, \<open>create_system_sensors\<close> should create a
  DomesticHotWaterTankTemperatureSensor. The code tests the truth value of the
  temperature where the sibling checks test \<open>is not None\<close>: for the example system,
  whose only hot water unit reports 0.0 degrees, the temperature is present and no tank
  temperature sensor is created.
\<close>

theorem create_system_sensors_dhw_at_zero:
  "DomesticHotWater_current_dhw_temperature example_dhw = Some 0
   \<and> system_coordinator_data example_hass = Some [example_system]
   \<and> System_domestic_hot_water example_system = [example_dhw]
   \<and> DomesticHotWaterTankTemperatureSensor 0 0 \<notin> set (create_system_sensors example_hass)"
proof -
  have "DomesticHotWaterTankTemperatureSensor 0 0 \<notin> set (create_system_sensors example_hass)"
    by (simp add: example_create_system_sensors)
  moreover have "DomesticHotWater_current_dhw_temperature example_dhw = Some 0"
    by (simp add: example_dhw_def)
  moreover have "system_coordinator_data example_hass = Some [example_system]"
    by (simp add: example_hass_def)
  moreover have "System_domestic_hot_water example_system = [example_dhw]"
    by (simp add: example_system_def)
  ultimately show ?thesis by simp
qed

text \<open>
  C2. For the system at index \<open>i\<close> of the system coordinator's data,
  \<open>create_system_sensors\<close> creates a SystemOutdoorTemperatureSensor for \<open>i\<close> if and
  only if the outdoor temperature of that system is not \<open>None\<close>, a
  SystemWaterPressureSensor for \<open>i\<close> if and only if its water pressure is not \<open>None\<close>,
  and exactly one HomeEntity for \<open>i\<close>.
\<close>

theorem create_system_sensors_system_level:
  assumes "system_coordinator_data h = Some data" and "i < length data"
  shows "(SystemOutdoorTemperatureSensor i \<in> set (create_system_sensors h))
           = (System_outdoor_temperature (data ! i) \<noteq> None)
       \<and> (SystemWaterPressureSensor i \<in> set (create_system_sensors h))
           = (System_water_pressure (data ! i) \<noteq> None)
       \<and> count_list (create_system_sensors h) (HomeEntity i) = 1"
proof -
  let ?S = "create_system_sensors h"
  have sl: "\<not> system_level s \<Longrightarrow> \<not> s = x" if "system_level x" for s x
    using that by auto
  have a: "filter (\<lambda>y. y = SystemOutdoorTemperatureSensor i) ?S
        = (if System_outdoor_temperature (data ! i) \<noteq> None
           then [SystemOutdoorTemperatureSensor i] else [])"
    by (subst filter_create_system_sensors[OF assms sl]) simp_all
  have b: "filter (\<lambda>y. y = SystemWaterPressureSensor i) ?S
        = (if System_water_pressure (data ! i) \<noteq> None
           then [SystemWaterPressureSensor i] else [])"
    by (subst filter_create_system_sensors[OF assms sl]) simp_all
  have c: "filter (\<lambda>y. y = HomeEntity i) ?S = [HomeEntity i]"
    by (subst filter_create_system_sensors[OF assms sl]) simp_all
  have m: "(x \<in> set ?S) = (filter (\<lambda>y. y = x) ?S \<noteq> [])" for x
    by (auto simp: filter_empty_conv)
  show ?thesis
    by (simp add: m a b count_list_filter c)
qed

theorem create_system_sensors_system_level_witness:
  "system_coordinator_data example_hass = Some [example_system]
   \<and> (0::nat) < length [example_system]
   \<and> SystemOutdoorTemperatureSensor 0 \<in> set (create_system_sensors example_hass)
   \<and> SystemWaterPressureSensor 0 \<notin> set (create_system_sensors example_hass)
   \<and> count_list (create_system_sensors example_hass) (HomeEntity 0) = 1"
proof -
  have d: "system_coordinator_data example_hass = Some [example_system]"
    by (simp add: example_hass_def)
  have i: "(0::nat) < length [example_system]" by simp
  have t: "System_outdoor_temperature example_system \<noteq> None"
    "System_water_pressure example_system = None"
    by (simp_all add: example_system_def del: not_None_eq)
  show ?thesis
    using d t create_system_sensors_system_level[OF d i] by simp
qed

text \<open>
  C8. When the system coordinator's data is absent or empty, \<open>create_system_sensors\<close>
  returns the empty list; when the daily-data coordinator's data is absent or empty,
  \<open>create_daily_data_sensors\<close> returns the empty list. Neither raises.
\<close>

theorem create_sensors_without_data:
  "(system_coordinator_data h = None \<or> system_coordinator_data h = Some [] \<longrightarrow>
      create_system_sensors h = [])
   \<and> (daily_data_coordinator_data h = None \<or> daily_data_coordinator_data h = Some [] \<longrightarrow>
      create_daily_data_sensors u h = Inr [])"
  by (auto simp: create_system_sensors_def create_daily_data_sensors_def)

theorem create_sensors_without_data_witness:
  "system_coordinator_data empty_hass = None
   \<and> daily_data_coordinator_data empty_hass = Some []
   \<and> create_system_sensors empty_hass = []
   \<and> create_daily_data_sensors example_utils empty_hass = Inr []"
proof -
  have s: "system_coordinator_data empty_hass = None"
    and d: "daily_data_coordinator_data empty_hass = Some []"
    by (simp_all add: empty_hass_def)
  show ?thesis
    using s d create_sensors_without_data[of empty_hass example_utils] by simp
qed

section \<open>The values of the system sensors\<close>

lemma round_half_even_near: "\<bar>of_int (round_half_even x) - x\<bar> \<le> 1 / 2"
  unfolding round_half_even_def Let_def
  by (auto simp: abs_if) linarith+

lemma py_round_one_decimal:
  "py_round x 1 = of_int (round_half_even (x * 10)) / 10 \<and> \<bar>py_round x 1 - x\<bar> \<le> 1 / 20"
proof -
  have "\<bar>of_int (round_half_even (x * 10)) - x * 10\<bar> \<le> 1 / 2"
    by (rule round_half_even_near)
  then show ?thesis
    by (simp add: py_round_def abs_if field_simps split: if_splits)
qed

lemma example_py_round: "py_round (2146 / 100) 1 = 215 / 10"
  by (simp add: py_round_def round_half_even_def)

text \<open>
  C5. For a SystemOutdoorTemperatureSensor (a SystemWaterPressureSensor) with stored
  index \<open>i\<close>, where the system coordinator's data has a system at \<open>i\<close>,
  \<open>native_value\<close> is the outdoor temperature (the water pressure) of that system
  rounded to one decimal place when it is not \<open>None\<close>, and \<open>None\<close> otherwise. A value
  rounded to one place is a whole number of tenths, at most a twentieth away.
\<close>

theorem system_sensor_native_value:
  assumes "system_coordinator_data h = Some data" and "i < length data"
  shows "native_value u (SystemOutdoorTemperatureSensor i) h =
           Inr (case System_outdoor_temperature (data ! i) of
                  Some t \<Rightarrow> PyFloat (py_round t 1)
                | None \<Rightarrow> PyNone)
       \<and> native_value u (SystemWaterPressureSensor i) h =
           Inr (case System_water_pressure (data ! i) of
                  Some p \<Rightarrow> PyFloat (py_round p 1)
                | None \<Rightarrow> PyNone)
       \<and> (\<exists>k::int. py_round x 1 = of_int k / 10 \<and> \<bar>py_round x 1 - x\<bar> \<le> 1 / 20)"
proof -
  have "system h i = Inr (data ! i)"
    using assms by (simp add: system_def list_getitem_def)
  then show ?thesis
    using py_round_one_decimal[of x] by (auto split: option.splits)
qed

theorem system_sensor_native_value_witness:
  "system_coordinator_data example_hass = Some [example_system]
   \<and> (0::nat) < length [example_system]
   \<and> native_value example_utils (SystemOutdoorTemperatureSensor 0) example_hass = Inr (PyFloat (215 / 10))
   \<and> native_value example_utils (SystemWaterPressureSensor 0) example_hass = Inr PyNone"
proof -
  have d: "system_coordinator_data example_hass = Some [example_system]"
    by (simp add: example_hass_def)
  have i: "(0::nat) < length [example_system]" by simp
  have t: "System_outdoor_temperature example_system = Some (2146 / 100)"
    "System_water_pressure example_system = None"
    by (simp_all add: example_system_def)
  have n: "[example_system] ! 0 = example_system" by simp
  note T = system_sensor_native_value[OF d i, of example_utils 0]
  from T[THEN conjunct1]
  have a: "native_value example_utils (SystemOutdoorTemperatureSensor 0) example_hass = Inr (PyFloat (215 / 10))"
    by (simp only: n t option.case example_py_round)
  from T[THEN conjunct2, THEN conjunct1]
  have b: "native_value example_utils (SystemWaterPressureSensor 0) example_hass = Inr PyNone"
    by (simp only: n t option.case)
  show ?thesis
    by (intro conjI d i a b)
qed

section \<open>What create_daily_data_sensors returns\<close>

text \<open>
  Where the system id is a key of the daily data, the constructor of a DataSensor does
  not raise: the three properties it evaluates for the log all return.
\<close>

lemma DataSensor_init_eq:
  assumes "daily_data_getitem h system_id = Inr sd"
  shows "DataSensor_init u h system_id de_index da_index =
     result_bind (device_data h system_id de_index da_index) (\<lambda>dd.
       Inr (DataSensor system_id de_index da_index (select_unit dd)))"
  using assms
  by (simp add: DataSensor_init_def device_data_def DataSensor_name_def DataSensor_device_def
      DataSensor_home_name_def DataSensor_native_value_def data_bucket_def
      DataSensor_unique_id_def Let_def split: option.splits)

lemma data_loop_eq:
  assumes "daily_data_getitem h system_id = Inr sd"
    and "de_index < length (devices_data sd)"
    and "da_index < length (devices_data sd ! de_index)"
  shows "data_loop u h system_id de_index (da_index, x) sensors =
     Inr (sensors @ [DataSensor system_id de_index da_index (unit_at sd de_index da_index)])"
  using assms by (simp add: data_loop_def DataSensor_init_eq device_data_def unit_at_def)

lemma devices_data_loop_eq:
  assumes g: "daily_data_getitem h system_id = Inr sd"
    and p: "p \<in> set (enumerate 0 (devices_data sd))"
  shows "devices_data_loop u h system_id p sensors = Inr (sensors @ device_block system_id sd p)"
proof -
  obtain de_index row where pe: "p = (de_index, row)" by (cases p)
  with p have de: "de_index < length (devices_data sd)"
    and row: "row = devices_data sd ! de_index"
    by (simp_all add: in_set_enumerate_eq)
  let ?mk = "\<lambda>da_index. DataSensor system_id de_index da_index (unit_at sd de_index da_index)"
  have "fold_result (data_loop u h system_id de_index) (enumerate 0 row) acc =
      Inr (acc @ concat (map (\<lambda>(da_index, x). [?mk da_index]) (enumerate 0 row)))" for acc
    by (rule fold_result_append)
       (use g de row in \<open>auto simp: in_set_enumerate_eq data_loop_eq\<close>)
  moreover have "concat (map (\<lambda>(da_index, x). [?mk da_index]) (enumerate 0 row))
      = map ?mk [0..<length row]"
    using concat_singletons_enumerate[of ?mk 0 row] by simp
  ultimately show ?thesis
    using g de row
    by (simp add: devices_data_loop_def pe device_block_def list_getitem_def Let_def)
qed

lemma daily_system_loop_eq:
  assumes g: "daily_data_getitem h system_id = Inr sd"
  shows "daily_system_loop u h (system_id, sd) sensors =
         Inr (sensors @ system_block (system_id, sd))"
  unfolding daily_system_loop_def Let_def prod.case system_block_def
  by (subst fold_result_append[where g = "device_block system_id sd"])
     (simp_all add: devices_data_loop_eq[OF g])

lemma daily_data_getitem_member:
  assumes "daily_data_coordinator_data h = Some data" and "distinct (map fst data)"
    and "(system_id, sd) \<in> set data"
  shows "daily_data_getitem h system_id = Inr sd"
  using assms by (simp add: daily_data_getitem_def dict_getitem_def)

lemma create_daily_data_sensors_eq:
  assumes "daily_data_coordinator_data h = Some data" and "distinct (map fst data)"
  shows "create_daily_data_sensors u h = Inr (concat (map system_block data))"
proof -
  have "fold_result (daily_system_loop u h) data [] = Inr ([] @ concat (map system_block data))"
    by (rule fold_result_append)
       (use assms in \<open>auto simp: daily_system_loop_eq daily_data_getitem_member\<close>)
  with assms(1) show ?thesis by (auto simp: create_daily_data_sensors_def)
qed

lemma device_block_ids:
  "s \<in> set (device_block system_id sd (de_index, row)) \<Longrightarrow>
   daily_system_id s = Some system_id \<and> daily_de_index s = Some de_index"
  by (auto simp: device_block_def split: if_splits)

lemma system_block_ids:
  "s \<in> set (system_block (system_id, sd)) \<Longrightarrow> daily_system_id s = Some system_id"
  by (auto simp: system_block_def dest: device_block_ids)

lemma filter_other_system:
  assumes "\<And>s. P s \<Longrightarrow> daily_system_id s = Some system_id" and "k \<noteq> system_id"
  shows "filter P (system_block (k, v)) = []"
  using assms system_block_ids[of _ k v] by (fastforce simp: filter_empty_conv)

lemma filter_other_device:
  assumes "\<And>s. P s \<Longrightarrow> daily_de_index s = Some de_index" and "j \<noteq> de_index"
  shows "filter P (device_block system_id sd (j, row)) = []"
  using assms device_block_ids[of _ system_id sd j row] by (fastforce simp: filter_empty_conv)

lemma filter_system_block_device:
  assumes "\<And>s. P s \<Longrightarrow> daily_de_index s = Some de_index"
    and "de_index < length (devices_data sd)"
  shows "filter P (system_block (system_id, sd)) =
         filter P (device_block system_id sd (de_index, devices_data sd ! de_index))"
proof -
  have "\<not> P (EfficiencySensor system_id None)"
    using assms(1) by fastforce
  moreover have
    "filter P (concat (map (device_block system_id sd) (enumerate 0 (devices_data sd))))
     = filter P (device_block system_id sd (de_index, devices_data sd ! (de_index - 0)))"
    by (rule filter_concat_enumerate) (use assms in \<open>simp_all add: filter_other_device\<close>)
  ultimately show ?thesis by (simp add: system_block_def)
qed

lemma filter_system_block_head:
  "filter (\<lambda>y. y = EfficiencySensor system_id None) (system_block (system_id, sd)) =
   [EfficiencySensor system_id None]"
proof -
  have "filter (\<lambda>y. y = EfficiencySensor system_id None) (device_block system_id sd p) = []"
    for p
    using device_block_ids[of _ system_id sd "fst p" "snd p"]
    by (fastforce simp: filter_empty_conv)
  then have "filter (\<lambda>y. y = EfficiencySensor system_id None)
      (concat (map (device_block system_id sd) xs)) = []" for xs
    by (intro filter_concat_nil)
  then show ?thesis by (simp add: system_block_def)
qed

lemma device_block_counts:
  "length (filter (\<lambda>y. y = EfficiencySensor system_id (Some de_index))
      (device_block system_id sd (de_index, row))) = (if row = [] then 0 else 1)"
  "length (filter (is_data_sensor_at system_id de_index da_index)
      (device_block system_id sd (de_index, row))) = (if da_index < length row then 1 else 0)"
  by (simp_all add: device_block_def filter_map o_def length_filter_upt)

lemma example_create_daily_data_sensors:
  "create_daily_data_sensors example_utils example_hass =
     Inr [EfficiencySensor ''s1'' None, EfficiencySensor ''s1'' (Some 0),
          DataSensor ''s1'' 0 0 (Some ''Wh''), DataSensor ''s1'' 0 1 (Some ''Wh'')]"
  by code_simp

text \<open>
  C3. For every system id of the daily-data coordinator's data (a dict, so its keys are
  distinct), \<open>create_daily_data_sensors\<close> returns one list that holds exactly one
  EfficiencySensor of the system (device index \<open>None\<close>), and for each device data list
  of the system: no sensor when the list is empty, and otherwise exactly one
  EfficiencySensor of the device and exactly one DataSensor for each entry of the list.
  The list holds nothing else: its length is the number of these sensors.
\<close>

theorem create_daily_data_sensors_counts:
  assumes "daily_data_coordinator_data h = Some data"
    and "distinct (map fst data)"
    and "(system_id, system_devices) \<in> set data"
  shows "\<exists>sensors. create_daily_data_sensors u h = Inr sensors
     \<and> count_list sensors (EfficiencySensor system_id None) = 1
     \<and> (\<forall>de_index < length (devices_data system_devices).
          count_list sensors (EfficiencySensor system_id (Some de_index))
            = (if devices_data system_devices ! de_index = [] then 0 else 1)
          \<and> (\<forall>da_index.
               length (filter (is_data_sensor_at system_id de_index da_index) sensors)
                 = (if da_index < length (devices_data system_devices ! de_index)
                    then 1 else 0)))
     \<and> length sensors =
         (\<Sum>(k, sd) \<leftarrow> data. 1 + (\<Sum>row \<leftarrow> devices_data sd.
            if row = [] then 0 else 1 + length row))"
proof -
  let ?S = "concat (map system_block data)"
  have eq: "create_daily_data_sensors u h = Inr ?S"
    by (rule create_daily_data_sensors_eq[OF assms(1,2)])
  have sys: "filter P ?S = filter P (system_block (system_id, system_devices))"
    if "\<And>s. P s \<Longrightarrow> daily_system_id s = Some system_id" for P
    by (rule filter_concat_key[OF assms(2,3)]) (rule filter_other_system[OF that])
  have head: "count_list ?S (EfficiencySensor system_id None) = 1"
    using sys[of "\<lambda>y. y = EfficiencySensor system_id None"]
    by (simp add: count_list_filter filter_system_block_head)
  have dev: "count_list ?S (EfficiencySensor system_id (Some de_index))
            = (if devices_data system_devices ! de_index = [] then 0 else 1)"
     "length (filter (is_data_sensor_at system_id de_index da_index) ?S)
        = (if da_index < length (devices_data system_devices ! de_index) then 1 else 0)"
    if "de_index < length (devices_data system_devices)" for de_index da_index
  proof -
    have 1: "is_data_sensor_at system_id de_index da_index s \<Longrightarrow>
       daily_system_id s = Some system_id \<and> daily_de_index s = Some de_index" for s
      by (cases s) auto
    show "count_list ?S (EfficiencySensor system_id (Some de_index))
            = (if devices_data system_devices ! de_index = [] then 0 else 1)"
      unfolding count_list_filter
      by (subst sys, simp, subst filter_system_block_device[OF _ that], simp)
         (rule device_block_counts)
    show "length (filter (is_data_sensor_at system_id de_index da_index) ?S)
        = (if da_index < length (devices_data system_devices ! de_index) then 1 else 0)"
      by (subst sys, simp add: 1, subst filter_system_block_device[OF _ that], simp add: 1)
         (rule device_block_counts)
  qed
  have len_dev: "length (device_block k sd p) = (if snd p = [] then 0 else 1 + length (snd p))"
    for k sd p
    by (cases p) (simp add: device_block_def)
  have len_sys: "length (system_block (k, sd)) = 1 + (\<Sum>row \<leftarrow> devices_data sd.
            if row = [] then 0 else 1 + length row)" for k sd
  proof -
    have "(\<Sum>p \<leftarrow> enumerate n xs. length (device_block k sd p))
        = (\<Sum>row \<leftarrow> xs. if row = [] then 0 else 1 + length row)" for n xs
      by (induction xs arbitrary: n) (simp_all add: len_dev)
    then show ?thesis
      by (simp add: system_block_def length_concat o_def)
  qed
  have len: "length ?S = (\<Sum>(k, sd) \<leftarrow> data. 1 + (\<Sum>row \<leftarrow> devices_data sd.
            if row = [] then 0 else 1 + length row))"
    by (simp add: length_concat o_def case_prod_unfold
        len_sys[of "fst p" "snd p" for p, simplified])
  show ?thesis
    using eq head dev len by blast
qed

theorem create_daily_data_sensors_counts_witness:
  "daily_data_coordinator_data example_hass = Some [(''s1'', example_devices)]
   \<and> distinct (map fst [(''s1'', example_devices)])
   \<and> (''s1'', example_devices) \<in> set [(''s1'', example_devices)]
   \<and> (\<exists>sensors. create_daily_data_sensors example_utils example_hass = Inr sensors
        \<and> count_list sensors (EfficiencySensor ''s1'' None) = 1
        \<and> count_list sensors (EfficiencySensor ''s1'' (Some 0)) = 1
        \<and> count_list sensors (EfficiencySensor ''s1'' (Some 1)) = 0
        \<and> length (filter (is_data_sensor_at ''s1'' 0 1) sensors) = 1
        \<and> length (filter (is_data_sensor_at ''s1'' 0 2) sensors) = 0
        \<and> length sensors = 4)"
proof -
  have d: "daily_data_coordinator_data example_hass = Some [(''s1'', example_devices)]"
    by (simp add: example_hass_def)
  have k: "distinct (map fst [(''s1'', example_devices)])" by simp
  have m: "(''s1'', example_devices) \<in> set [(''s1'', example_devices)]" by simp
  have dd: "devices_data example_devices = [[consumed_data, generated_data], []]"
    by (simp add: example_devices_def)
  from create_daily_data_sensors_counts[OF d k m, of example_utils]
  obtain sensors where c: "create_daily_data_sensors example_utils example_hass = Inr sensors"
    and h: "count_list sensors (EfficiencySensor ''s1'' None) = 1"
    and q: "\<And>de_index da_index. de_index < length (devices_data example_devices) \<Longrightarrow>
          count_list sensors (EfficiencySensor ''s1'' (Some de_index))
            = (if devices_data example_devices ! de_index = [] then 0 else 1)
          \<and> length (filter (is_data_sensor_at ''s1'' de_index da_index) sensors)
                 = (if da_index < length (devices_data example_devices ! de_index)
                    then 1 else 0)"
    and l: "length sensors =
         (\<Sum>(k, sd) \<leftarrow> [(''s1'', example_devices)]. 1 + (\<Sum>row \<leftarrow> devices_data sd.
            if row = [] then 0 else 1 + length row))"
    by blast
  from q[of 0 1] q[of 0 2] q[of 1 0] l
  have "count_list sensors (EfficiencySensor ''s1'' (Some 0)) = 1
        \<and> count_list sensors (EfficiencySensor ''s1'' (Some 1)) = 0
        \<and> length (filter (is_data_sensor_at ''s1'' 0 1) sensors) = 1
        \<and> length (filter (is_data_sensor_at ''s1'' 0 2) sensors) = 0
        \<and> length sensors = 4"
    by (simp add: dd)
  with c h d k m show ?thesis by blast
qed

section \<open>The DataSensor\<close>

lemma select_unit_cases:
  "select_unit dd =
     (if \<exists>d e. dd = Some d \<and> DeviceData_energy_type d = Some e \<and> e \<in> known_energy_types
      then Some ENERGY_WATT_HOUR else None)"
  by (auto simp: select_unit_def DATA_UNIT_MAP_def dict_contains_def known_energy_types_def
      split: option.splits)

lemma example_device_data: "device_data example_hass ''s1'' 0 0 = Inr (Some consumed_data)"
  by (simp add: device_data_def daily_data_getitem_def dict_getitem_def example_hass_def
      example_devices_def)

lemma example_known_energy_type:
  "DeviceData_energy_type consumed_data = Some ''CONSUMED_ELECTRICAL_ENERGY''
   \<and> ''CONSUMED_ELECTRICAL_ENERGY'' \<in> known_energy_types"
  by (simp add: consumed_data_def known_energy_types_def)

lemma example_last_bucket:
  "(let data = [b. b \<leftarrow> DeviceData_data consumed_data, DeviceDataBucket_value b \<noteq> None]
    in if data = [] then PyNone else opt_float (DeviceDataBucket_value (last data)))
   = PyFloat 1500"
  by (simp add: consumed_data_def opt_float_def)

text \<open>
  C4. Constructed where the system id is a key of the daily data, a DataSensor selects
  the watt-hour constant as its unit if and only if its device data is present and the
  energy type of the device data is one of the five known keys; otherwise it selects no
  unit. The native value of the sensor does not depend on the unit and is not
  converted: it is the value of the last bucket that holds one, as stored.
\<close>

theorem DataSensor_init_unit:
  assumes "device_data h system_id de_index da_index = Inr dd"
  shows "\<exists>unit. DataSensor_init u h system_id de_index da_index
                  = Inr (DataSensor system_id de_index da_index unit)
     \<and> (unit = Some ENERGY_WATT_HOUR)
         = (\<exists>d e. dd = Some d \<and> DeviceData_energy_type d = Some e \<and> e \<in> known_energy_types)
     \<and> (unit = None)
         = (\<not> (\<exists>d e. dd = Some d \<and> DeviceData_energy_type d = Some e
                   \<and> e \<in> known_energy_types))
     \<and> (\<forall>unit'. native_value u (DataSensor system_id de_index da_index unit') h =
           Inr (case dd of
                  None \<Rightarrow> PyNone
                | Some d \<Rightarrow>
                    (let data = [b. b \<leftarrow> DeviceData_data d, DeviceDataBucket_value b \<noteq> None]
                     in if data = [] then PyNone
                        else opt_float (DeviceDataBucket_value (last data)))))"
proof -
  from assms obtain sd where g: "daily_data_getitem h system_id = Inr sd"
    by (cases "daily_data_getitem h system_id") (simp_all add: device_data_def)
  have init: "DataSensor_init u h system_id de_index da_index
      = Inr (DataSensor system_id de_index da_index (select_unit dd))"
    by (simp add: DataSensor_init_eq[OF g] assms)
  have nv: "native_value u (DataSensor system_id de_index da_index unit') h =
           Inr (case dd of
                  None \<Rightarrow> PyNone
                | Some d \<Rightarrow>
                    (let data = [b. b \<leftarrow> DeviceData_data d, DeviceDataBucket_value b \<noteq> None]
                     in if data = [] then PyNone
                        else opt_float (DeviceDataBucket_value (last data))))" for unit'
    by (simp add: DataSensor_native_value_def data_bucket_def assms Let_def
        split: option.splits)
  show ?thesis
    using init nv by (simp add: select_unit_cases ENERGY_WATT_HOUR_def)
qed

theorem DataSensor_init_unit_witness:
  "device_data example_hass ''s1'' 0 0 = Inr (Some consumed_data)
   \<and> DataSensor_init example_utils example_hass ''s1'' 0 0
       = Inr (DataSensor ''s1'' 0 0 (Some ENERGY_WATT_HOUR))
   \<and> native_value example_utils (DataSensor ''s1'' 0 0 None) example_hass = Inr (PyFloat 1500)"
proof -
  note d = example_device_data
  from DataSensor_init_unit[OF d, of example_utils]
  obtain unit where i: "DataSensor_init example_utils example_hass ''s1'' 0 0
        = Inr (DataSensor ''s1'' 0 0 unit)"
    and w: "(unit = Some ENERGY_WATT_HOUR)
         = (\<exists>d e. Some consumed_data = Some d \<and> DeviceData_energy_type d = Some e
                 \<and> e \<in> known_energy_types)"
    and n: "\<And>unit'. native_value example_utils (DataSensor ''s1'' 0 0 unit') example_hass =
           Inr (case Some consumed_data of
                  None \<Rightarrow> PyNone
                | Some d \<Rightarrow>
                    (let data = [b. b \<leftarrow> DeviceData_data d, DeviceDataBucket_value b \<noteq> None]
                     in if data = [] then PyNone
                        else opt_float (DeviceDataBucket_value (last data))))"
    by blast
  from w example_known_energy_type have "unit = Some ENERGY_WATT_HOUR" by blast
  with i have a: "DataSensor_init example_utils example_hass ''s1'' 0 0
       = Inr (DataSensor ''s1'' 0 0 (Some ENERGY_WATT_HOUR))" by simp
  from n[of None] have b: "native_value example_utils (DataSensor ''s1'' 0 0 None) example_hass
       = Inr (PyFloat 1500)"
    by (simp only: option.case example_last_bucket)
  show ?thesis by (intro conjI d a b)
qed

text \<open>
  C10. For a DataSensor whose system id is a key of the daily data and whose device
  index or data index is out of the range of the current lists, \<open>device_data\<close> returns
  \<open>None\<close>, and so do \<open>name\<close>, \<open>unique_id\<close>, \<open>device_info\<close> and \<open>native_value\<close>;
  none of them raises.
\<close>

theorem DataSensor_out_of_range:
  assumes "daily_data_getitem h system_id = Inr sd"
    and "length (devices_data sd) \<le> de_index
         \<or> length (devices_data sd ! de_index) \<le> da_index"
  shows "device_data h system_id de_index da_index = Inr None
       \<and> name u (DataSensor system_id de_index da_index unit) h = Inr None
       \<and> unique_id u (DataSensor system_id de_index da_index unit) h = Inr None
       \<and> device_info u (DataSensor system_id de_index da_index unit) h = Inr None
       \<and> native_value u (DataSensor system_id de_index da_index unit) h = Inr PyNone"
proof -
  have dd: "device_data h system_id de_index da_index = Inr None"
    using assms by (auto simp: device_data_def)
  then show ?thesis
    by (simp add: DataSensor_name_def DataSensor_device_def DataSensor_unique_id_def
        DataSensor_device_info_def DataSensor_native_value_def data_bucket_def)
qed

theorem DataSensor_out_of_range_witness:
  "daily_data_getitem example_hass ''s1'' = Inr example_devices
   \<and> length (devices_data example_devices ! 0) \<le> 2
   \<and> device_data example_hass ''s1'' 0 2 = Inr None
   \<and> name example_utils (DataSensor ''s1'' 0 2 (Some ENERGY_WATT_HOUR)) example_hass = Inr None
   \<and> unique_id example_utils (DataSensor ''s1'' 0 2 (Some ENERGY_WATT_HOUR)) example_hass
       = Inr None
   \<and> device_info example_utils (DataSensor ''s1'' 0 2 (Some ENERGY_WATT_HOUR)) example_hass
       = Inr None
   \<and> native_value example_utils (DataSensor ''s1'' 0 2 (Some ENERGY_WATT_HOUR)) example_hass = Inr PyNone"
proof -
  have g: "daily_data_getitem example_hass ''s1'' = Inr example_devices"
    by (simp add: daily_data_getitem_def dict_getitem_def example_hass_def)
  have r: "length (devices_data example_devices ! 0) \<le> 2"
    by (simp add: example_devices_def)
  then have o: "length (devices_data example_devices) \<le> 0
     \<or> length (devices_data example_devices ! 0) \<le> 2" by simp
  show ?thesis
    using g r
      DataSensor_out_of_range[OF g o, of example_utils "Some ENERGY_WATT_HOUR"]
    by simp
qed

section \<open>The EfficiencySensor\<close>










section \<open>The properties depend on the cached data and the indices only\<close>

lemma system_cong:
  "system_coordinator_data h1 = system_coordinator_data h2 \<Longrightarrow> system h1 = system h2"
  by (rule ext) (simp add: system_def)

lemma daily_cong:
  "daily_data_coordinator_data h1 = daily_data_coordinator_data h2 \<Longrightarrow>
   daily_data_getitem h1 = daily_data_getitem h2"
  by (rule ext) (simp add: daily_data_getitem_def)

lemma system_properties_cong:
  assumes "system_coordinator_data h1 = system_coordinator_data h2"
  shows "zone h1 = zone h2" "circuit h1 = circuit h2"
    "domestic_hot_water h1 = domestic_hot_water h2"
    "system_device h1 = system_device h2" "circuit_name_suffix h1 = circuit_name_suffix h2"
    "zone_sensor_name u h1 = zone_sensor_name u h2"
    "circuit_sensor_name u h1 = circuit_sensor_name u h2"
    "dhw_sensor_name u h1 = dhw_sensor_name u h2"
    "system_unique_id u h1 = system_unique_id u h2"
    "system_sensor_name u h1 = system_sensor_name u h2"
    "SystemSensor_device_info u h1 = SystemSensor_device_info u h2"
    "HomeEntity_device_info u h1 = HomeEntity_device_info u h2"
    "ZoneEntity_device_info u h1 = ZoneEntity_device_info u h2"
    "CircuitSensor_device_info u h1 = CircuitSensor_device_info u h2"
    "DomesticHotWaterSensor_device_info u h1 = DomesticHotWaterSensor_device_info u h2"
    "SystemDeviceSensor_device_info u h1 = SystemDeviceSensor_device_info u h2"
  unfolding zone_def circuit_def domestic_hot_water_def system_device_def
    circuit_name_suffix_def zone_sensor_name_def circuit_sensor_name_def dhw_sensor_name_def
    system_unique_id_def system_sensor_name_def SystemSensor_device_info_def
    HomeEntity_device_info_def ZoneEntity_device_info_def CircuitSensor_device_info_def
    DomesticHotWaterSensor_device_info_def SystemDeviceSensor_device_info_def
    system_cong[OF assms]
  by (rule refl)+

lemma daily_properties_cong:
  assumes "daily_data_coordinator_data h1 = daily_data_coordinator_data h2"
  shows "device_data h1 = device_data h2" "DataSensor_home_name h1 = DataSensor_home_name h2"
    "DataSensor_device h1 = DataSensor_device h2" "data_bucket h1 = data_bucket h2"
    "DataSensor_name u h1 = DataSensor_name u h2"
    "DataSensor_unique_id u h1 = DataSensor_unique_id u h2"
    "DataSensor_device_info u h1 = DataSensor_device_info u h2"
    "DataSensor_native_value h1 = DataSensor_native_value h2"
    "device_data_list h1 = device_data_list h2"
    "EfficiencySensor_home_name h1 = EfficiencySensor_home_name h2"
    "energy_consumed u h1 = energy_consumed u h2"
    "heat_energy_generated u h1 = heat_energy_generated u h2"
    "EfficiencySensor_unique_id u h1 = EfficiencySensor_unique_id u h2"
    "EfficiencySensor_device_info u h1 = EfficiencySensor_device_info u h2"
    "EfficiencySensor_native_value u h1 = EfficiencySensor_native_value u h2"
    "EfficiencySensor_name u h1 = EfficiencySensor_name u h2"
  unfolding device_data_def DataSensor_home_name_def DataSensor_device_def data_bucket_def
    DataSensor_name_def DataSensor_unique_id_def DataSensor_device_info_def
    DataSensor_native_value_def device_data_list_def EfficiencySensor_home_name_def
    energy_consumed_def heat_energy_generated_def EfficiencySensor_unique_id_def
    EfficiencySensor_device_info_def EfficiencySensor_native_value_def
    EfficiencySensor_name_def daily_cong[OF assms]
  by (rule refl)+

lemma stored_indices_eq:
  "stored_indices s1 = stored_indices s2 \<Longrightarrow>
   s1 = s2 \<or> (\<exists>system_id de_index da_index u1 u2.
      s1 = DataSensor system_id de_index da_index u1
      \<and> s2 = DataSensor system_id de_index da_index u2)"
  by (cases s1; cases s2) simp_all

lemma same_sensor_properties:
  fixes h1 :: "'a hass_scheme" and h2 :: "'b hass_scheme"
  assumes d: "coordinator_data s h1 = coordinator_data s h2"
  shows "name u s h1 = name u s h2
       \<and> unique_id u s h1 = unique_id u s h2
       \<and> native_value u s h1 = native_value u s h2
       \<and> device_info u s h1 = device_info u s h2"
proof (cases "daily_system_id s")
  case None
  with d have eq: "system_coordinator_data h1 = system_coordinator_data h2"
    by (cases s) simp_all
  from None show ?thesis
    by (cases s) (simp_all add: system_properties_cong[OF eq] system_cong[OF eq])
next
  case (Some a)
  with d have eq: "daily_data_coordinator_data h1 = daily_data_coordinator_data h2"
    by (cases s) simp_all
  from Some show ?thesis
    by (cases s) (simp_all add: daily_properties_cong[OF eq])
qed

lemma example_DataSensor_properties:
  "name example_utils (DataSensor ''s1'' 0 0 None) example_hass
     = Inr (Some ''Home 0 aroTHERM plus Consumed Electrical Energy Domestic Hot Water'')"
  "unique_id example_utils (DataSensor ''s1'' 0 0 None) example_hass
     = Inr (Some ''mypyllant_s1_d1_0'')"
  by code_simp+

text \<open>
  C7. The properties \<open>name\<close>, \<open>unique_id\<close>, \<open>native_value\<close> and \<open>device_info\<close>
  of a sensor are functions of the cached data of the sensor's coordinator and of the
  class and the stored indices of the sensor: two evaluations with equal cached data
  and equal indices give equal results, whatever else differs in the two states (the
  data of the other coordinator, the rest of the host's state, the unit that a
  DataSensor keeps).
\<close>

theorem properties_depend_on_data_and_indices:
  fixes h1 :: "'a hass_scheme" and h2 :: "'b hass_scheme"
  assumes d: "coordinator_data s1 h1 = coordinator_data s2 h2"
    and i: "stored_indices s1 = stored_indices s2"
  shows "name u s1 h1 = name u s2 h2
       \<and> unique_id u s1 h1 = unique_id u s2 h2
       \<and> native_value u s1 h1 = native_value u s2 h2
       \<and> device_info u s1 h1 = device_info u s2 h2"
proof -
  from stored_indices_eq[OF i] consider (same) "s1 = s2"
    | (data) system_id de_index da_index u1 u2 where
      "s1 = DataSensor system_id de_index da_index u1"
      "s2 = DataSensor system_id de_index da_index u2"
    by blast
  then show ?thesis
  proof cases
    case same
    with d same_sensor_properties[of s2 h1 h2 u] show ?thesis by simp
  next
    case data
    with d have "coordinator_data s2 h1 = coordinator_data s2 h2" by simp
    from same_sensor_properties[OF this, of u] data show ?thesis
      by simp
  qed
qed

theorem properties_depend_on_data_and_indices_witness:
  "coordinator_data (DataSensor ''s1'' 0 0 None) example_hass
     = coordinator_data (DataSensor ''s1'' 0 0 (Some ENERGY_WATT_HOUR)) other_state
   \<and> stored_indices (DataSensor ''s1'' 0 0 None)
     = stored_indices (DataSensor ''s1'' 0 0 (Some ENERGY_WATT_HOUR))
   \<and> system_coordinator_data example_hass \<noteq> system_coordinator_data other_state
   \<and> name example_utils (DataSensor ''s1'' 0 0 (Some ENERGY_WATT_HOUR)) other_state
     = Inr (Some ''Home 0 aroTHERM plus Consumed Electrical Energy Domestic Hot Water'')
   \<and> unique_id example_utils (DataSensor ''s1'' 0 0 (Some ENERGY_WATT_HOUR)) other_state
     = Inr (Some ''mypyllant_s1_d1_0'')
   \<and> native_value example_utils (DataSensor ''s1'' 0 0 None) example_hass
     = native_value example_utils (DataSensor ''s1'' 0 0 (Some ENERGY_WATT_HOUR)) other_state
   \<and> device_info example_utils (DataSensor ''s1'' 0 0 None) example_hass
     = device_info example_utils (DataSensor ''s1'' 0 0 (Some ENERGY_WATT_HOUR)) other_state"
proof -
  have d: "coordinator_data (DataSensor ''s1'' 0 0 None) example_hass
     = coordinator_data (DataSensor ''s1'' 0 0 (Some ENERGY_WATT_HOUR)) other_state"
    by (simp add: example_hass_def other_state_def)
  have i: "stored_indices (DataSensor ''s1'' 0 0 None)
     = stored_indices (DataSensor ''s1'' 0 0 (Some ENERGY_WATT_HOUR))"
    by simp
  have o: "system_coordinator_data example_hass \<noteq> system_coordinator_data other_state"
    by (simp add: example_hass_def other_state_def)
  note T = properties_depend_on_data_and_indices[OF d i, of example_utils]
  from T[THEN conjunct1, symmetric] example_DataSensor_properties(1)
  have n: "name example_utils (DataSensor ''s1'' 0 0 (Some ENERGY_WATT_HOUR)) other_state
     = Inr (Some ''Home 0 aroTHERM plus Consumed Electrical Energy Domestic Hot Water'')"
    by (rule trans)
  from T[THEN conjunct2, THEN conjunct1, symmetric] example_DataSensor_properties(2)
  have q: "unique_id example_utils (DataSensor ''s1'' 0 0 (Some ENERGY_WATT_HOUR)) other_state
     = Inr (Some ''mypyllant_s1_d1_0'')"
    by (rule trans)
  show ?thesis
    by (intro conjI d i o n q T[THEN conjunct2, THEN conjunct2, THEN conjunct1]
        T[THEN conjunct2, THEN conjunct2, THEN conjunct2])
qed

section \<open>The operations in state-passing form and the functions of the state\<close>

text \<open>
  Every property in state-passing form returns what the property as a function of the
  state returns, together with the state it was given.
\<close>

lemma bind_s_ret:
  "bind_s (r, st) f = (case r of Inl e \<Rightarrow> (Inl e, st) | Inr x \<Rightarrow> f x st)"
  by (simp add: bind_s_def)

lemma bind_pure_ret: "bind_pure (r, st) f = (result_bind r f, st)"
  by (simp add: bind_pure_def result_bind_def split: sum.splits)

lemma system_s_eq:
  "system_s h index = (system h index, h)"
  by (simp add: system_s_def system_def bind_s_ret bind_pure_ret result_bind_def 
      split: sum.splits option.splits prod.splits)

lemma zone_s_eq:
  "zone_s h system_index zone_index = (zone h system_index zone_index, h)"
  by (simp add: zone_s_def zone_def bind_s_ret bind_pure_ret result_bind_def system_s_eq
      split: sum.splits option.splits prod.splits)

lemma circuit_s_eq:
  "circuit_s h system_index circuit_index = (circuit h system_index circuit_index, h)"
  by (simp add: circuit_s_def circuit_def bind_s_ret bind_pure_ret result_bind_def system_s_eq
      split: sum.splits option.splits prod.splits)

lemma domestic_hot_water_s_eq:
  "domestic_hot_water_s h system_index dhw_index = (domestic_hot_water h system_index dhw_index, h)"
  by (simp add: domestic_hot_water_s_def domestic_hot_water_def bind_s_ret bind_pure_ret result_bind_def system_s_eq
      split: sum.splits option.splits prod.splits)

lemma system_device_s_eq:
  "system_device_s h system_index device_index = (system_device h system_index device_index, h)"
  by (simp add: system_device_s_def system_device_def bind_s_ret bind_pure_ret result_bind_def system_s_eq
      split: sum.splits option.splits prod.splits)

lemma circuit_name_suffix_s_eq:
  "circuit_name_suffix_s h system_index zone_index = (circuit_name_suffix h system_index zone_index, h)"
  by (simp add: circuit_name_suffix_s_def circuit_name_suffix_def bind_s_ret bind_pure_ret result_bind_def zone_s_eq
      split: sum.splits option.splits prod.splits)

lemma zone_sensor_name_s_eq:
  "zone_sensor_name_s u h label system_index zone_index = (zone_sensor_name u h label system_index zone_index, h)"
  by (simp add: zone_sensor_name_s_def zone_sensor_name_def bind_s_ret bind_pure_ret result_bind_def system_s_eq zone_s_eq
      split: sum.splits option.splits prod.splits)

lemma circuit_sensor_name_s_eq:
  "circuit_sensor_name_s u h label system_index circuit_index = (circuit_sensor_name u h label system_index circuit_index, h)"
  by (simp add: circuit_sensor_name_s_def circuit_sensor_name_def bind_s_ret bind_pure_ret result_bind_def system_s_eq circuit_s_eq
      split: sum.splits option.splits prod.splits)

lemma dhw_sensor_name_s_eq:
  "dhw_sensor_name_s u h label system_index dhw_index = (dhw_sensor_name u h label system_index dhw_index, h)"
  by (simp add: dhw_sensor_name_s_def dhw_sensor_name_def bind_s_ret bind_pure_ret result_bind_def system_s_eq domestic_hot_water_s_eq
      split: sum.splits option.splits prod.splits)

lemma system_unique_id_s_eq:
  "system_unique_id_s u h system_index suffix = (system_unique_id u h system_index suffix, h)"
  by (simp add: system_unique_id_s_def system_unique_id_def bind_s_ret bind_pure_ret result_bind_def system_s_eq
      split: sum.splits option.splits prod.splits)

lemma daily_data_getitem_s_eq:
  "daily_data_getitem_s h system_id = (daily_data_getitem h system_id, h)"
  by (simp add: daily_data_getitem_s_def daily_data_getitem_def bind_s_ret bind_pure_ret result_bind_def 
      split: sum.splits option.splits prod.splits)

lemma device_data_s_eq:
  "device_data_s h system_id de_index da_index = (device_data h system_id de_index da_index, h)"
  by (simp add: device_data_s_def device_data_def bind_s_ret bind_pure_ret result_bind_def daily_data_getitem_s_eq
      split: sum.splits option.splits prod.splits)

lemma DataSensor_home_name_s_eq:
  "DataSensor_home_name_s h system_id = (DataSensor_home_name h system_id, h)"
  by (simp add: DataSensor_home_name_s_def DataSensor_home_name_def bind_s_ret bind_pure_ret result_bind_def daily_data_getitem_s_eq
      split: sum.splits option.splits prod.splits)

lemma DataSensor_device_s_eq:
  "DataSensor_device_s h system_id de_index da_index = (DataSensor_device h system_id de_index da_index, h)"
  by (simp add: DataSensor_device_s_def DataSensor_device_def bind_s_ret bind_pure_ret result_bind_def device_data_s_eq
      split: sum.splits option.splits prod.splits)

lemma data_bucket_s_eq:
  "data_bucket_s h system_id de_index da_index = (data_bucket h system_id de_index da_index, h)"
  by (simp add: data_bucket_s_def data_bucket_def bind_s_ret bind_pure_ret result_bind_def device_data_s_eq
      split: sum.splits option.splits prod.splits)

lemma DataSensor_name_s_eq:
  "DataSensor_name_s u h system_id de_index da_index = (DataSensor_name u h system_id de_index da_index, h)"
  by (simp add: DataSensor_name_s_def DataSensor_name_def bind_s_ret bind_pure_ret result_bind_def device_data_s_eq DataSensor_home_name_s_eq DataSensor_device_s_eq
      split: sum.splits option.splits prod.splits)

lemma DataSensor_unique_id_s_eq:
  "DataSensor_unique_id_s u h system_id de_index da_index = (DataSensor_unique_id u h system_id de_index da_index, h)"
  by (simp add: DataSensor_unique_id_s_def DataSensor_unique_id_def bind_s_ret bind_pure_ret result_bind_def DataSensor_device_s_eq
      split: sum.splits option.splits prod.splits)

lemma DataSensor_device_info_s_eq:
  "DataSensor_device_info_s u h system_id de_index da_index = (DataSensor_device_info u h system_id de_index da_index, h)"
  by (simp add: DataSensor_device_info_s_def DataSensor_device_info_def bind_s_ret bind_pure_ret result_bind_def DataSensor_home_name_s_eq DataSensor_device_s_eq
      split: sum.splits option.splits prod.splits)

lemma DataSensor_native_value_s_eq:
  "DataSensor_native_value_s h system_id de_index da_index = (DataSensor_native_value h system_id de_index da_index, h)"
  by (simp add: DataSensor_native_value_s_def DataSensor_native_value_def bind_s_ret bind_pure_ret result_bind_def data_bucket_s_eq
      split: sum.splits option.splits prod.splits)

lemma device_data_list_s_eq:
  "device_data_list_s h system_id de_index = (device_data_list h system_id de_index, h)"
  by (simp add: device_data_list_s_def device_data_list_def bind_s_ret bind_pure_ret result_bind_def daily_data_getitem_s_eq
      split: sum.splits option.splits prod.splits)

lemma EfficiencySensor_home_name_s_eq:
  "EfficiencySensor_home_name_s h system_id = (EfficiencySensor_home_name h system_id, h)"
  by (simp add: EfficiencySensor_home_name_s_def EfficiencySensor_home_name_def bind_s_ret bind_pure_ret result_bind_def daily_data_getitem_s_eq
      split: sum.splits option.splits prod.splits)

lemma energy_consumed_s_eq:
  "energy_consumed_s u h system_id de_index = (energy_consumed u h system_id de_index, h)"
  by (simp add: energy_consumed_s_def energy_consumed_def bind_s_ret bind_pure_ret result_bind_def device_data_list_s_eq
      split: sum.splits option.splits prod.splits)

lemma heat_energy_generated_s_eq:
  "heat_energy_generated_s u h system_id de_index = (heat_energy_generated u h system_id de_index, h)"
  by (simp add: heat_energy_generated_s_def heat_energy_generated_def bind_s_ret bind_pure_ret result_bind_def device_data_list_s_eq
      split: sum.splits option.splits prod.splits)

lemma EfficiencySensor_unique_id_s_eq:
  "EfficiencySensor_unique_id_s u h system_id de_index = (EfficiencySensor_unique_id u h system_id de_index, h)"
  by (simp add: EfficiencySensor_unique_id_s_def EfficiencySensor_unique_id_def bind_s_ret bind_pure_ret result_bind_def device_data_list_s_eq
      split: sum.splits option.splits prod.splits)

lemma EfficiencySensor_device_info_s_eq:
  "EfficiencySensor_device_info_s u h system_id de_index = (EfficiencySensor_device_info u h system_id de_index, h)"
  by (simp add: EfficiencySensor_device_info_s_def EfficiencySensor_device_info_def bind_s_ret bind_pure_ret result_bind_def device_data_list_s_eq
      split: sum.splits option.splits prod.splits)

lemma EfficiencySensor_native_value_s_eq:
  "EfficiencySensor_native_value_s u h system_id de_index = (EfficiencySensor_native_value u h system_id de_index, h)"
  by (simp add: EfficiencySensor_native_value_s_def EfficiencySensor_native_value_def bind_s_ret bind_pure_ret result_bind_def energy_consumed_s_eq heat_energy_generated_s_eq
      split: sum.splits option.splits prod.splits)

lemma EfficiencySensor_name_s_eq:
  "EfficiencySensor_name_s u h system_id de_index = (EfficiencySensor_name u h system_id de_index, h)"
  by (simp add: EfficiencySensor_name_s_def EfficiencySensor_name_def bind_s_ret bind_pure_ret result_bind_def device_data_list_s_eq EfficiencySensor_home_name_s_eq
      split: sum.splits option.splits prod.splits)

lemma native_value_s_eq:
  "native_value_s u s h = (native_value u s h, h)"
  by (cases s) (simp_all add: bind_s_ret bind_pure_ret result_bind_def system_s_eq zone_s_eq circuit_s_eq domestic_hot_water_s_eq system_device_s_eq DataSensor_native_value_s_eq EfficiencySensor_native_value_s_eq
      split: sum.splits option.splits)

lemma unique_id_s_eq:
  "unique_id_s u s h = (unique_id u s h, h)"
  by (cases s) (simp_all add: bind_s_ret bind_pure_ret result_bind_def system_s_eq system_device_s_eq system_unique_id_s_eq DataSensor_unique_id_s_eq EfficiencySensor_unique_id_s_eq
      split: sum.splits option.splits)

lemma system_sensor_name_s_eq:
  "system_sensor_name_s u h system_index label = (system_sensor_name u h system_index label, h)"
  by (simp add: system_sensor_name_s_def system_sensor_name_def bind_s_ret bind_pure_ret result_bind_def system_s_eq
      split: sum.splits option.splits prod.splits)

lemma name_s_eq:
  "name_s u s h = (name u s h, h)"
  by (cases s) (simp_all add: bind_s_ret bind_pure_ret result_bind_def system_s_eq system_device_s_eq zone_sensor_name_s_eq circuit_sensor_name_s_eq dhw_sensor_name_s_eq DataSensor_name_s_eq EfficiencySensor_name_s_eq system_sensor_name_s_eq
      split: sum.splits option.splits)

lemma SystemSensor_device_info_s_eq:
  "SystemSensor_device_info_s u h index = (SystemSensor_device_info u h index, h)"
  by (simp add: SystemSensor_device_info_s_def SystemSensor_device_info_def bind_s_ret bind_pure_ret result_bind_def system_s_eq
      split: sum.splits option.splits prod.splits)

lemma HomeEntity_device_info_s_eq:
  "HomeEntity_device_info_s u h system_index = (HomeEntity_device_info u h system_index, h)"
  by (simp add: HomeEntity_device_info_s_def HomeEntity_device_info_def bind_s_ret bind_pure_ret result_bind_def system_s_eq
      split: sum.splits option.splits prod.splits)

lemma ZoneEntity_device_info_s_eq:
  "ZoneEntity_device_info_s u h system_index zone_index = (ZoneEntity_device_info u h system_index zone_index, h)"
  by (simp add: ZoneEntity_device_info_s_def ZoneEntity_device_info_def bind_s_ret bind_pure_ret result_bind_def system_s_eq zone_s_eq circuit_name_suffix_s_eq
      split: sum.splits option.splits prod.splits)

lemma CircuitSensor_device_info_s_eq:
  "CircuitSensor_device_info_s u h system_index circuit_index = (CircuitSensor_device_info u h system_index circuit_index, h)"
  by (simp add: CircuitSensor_device_info_s_def CircuitSensor_device_info_def bind_s_ret bind_pure_ret result_bind_def system_s_eq circuit_s_eq
      split: sum.splits option.splits prod.splits)

lemma DomesticHotWaterSensor_device_info_s_eq:
  "DomesticHotWaterSensor_device_info_s u h system_index dhw_index = (DomesticHotWaterSensor_device_info u h system_index dhw_index, h)"
  by (simp add: DomesticHotWaterSensor_device_info_s_def DomesticHotWaterSensor_device_info_def bind_s_ret bind_pure_ret result_bind_def system_s_eq domestic_hot_water_s_eq
      split: sum.splits option.splits prod.splits)

lemma SystemDeviceSensor_device_info_s_eq:
  "SystemDeviceSensor_device_info_s u h system_index = (SystemDeviceSensor_device_info u h system_index, h)"
  by (simp add: SystemDeviceSensor_device_info_s_def SystemDeviceSensor_device_info_def bind_s_ret bind_pure_ret result_bind_def system_s_eq
      split: sum.splits option.splits prod.splits)

lemma device_info_s_eq:
  "device_info_s u s h = (device_info u s h, h)"
  by (cases s) (simp_all add: bind_s_ret bind_pure_ret result_bind_def DataSensor_device_info_s_eq EfficiencySensor_device_info_s_eq SystemSensor_device_info_s_eq HomeEntity_device_info_s_eq ZoneEntity_device_info_s_eq CircuitSensor_device_info_s_eq DomesticHotWaterSensor_device_info_s_eq SystemDeviceSensor_device_info_s_eq
      split: sum.splits option.splits)

lemma extra_state_attributes_s_eq:
  "extra_state_attributes_s s h = (extra_state_attributes s h, h)"
  by (cases s) (simp_all add: bind_s_ret bind_pure_ret result_bind_def system_s_eq circuit_s_eq
      split: sum.splits option.splits)

lemma DataSensor_init_s_eq:
  "DataSensor_init_s u h system_id de_index da_index = (DataSensor_init u h system_id de_index da_index, h)"
  by (simp add: DataSensor_init_s_def DataSensor_init_def bind_s_ret bind_pure_ret result_bind_def Let_def device_data_s_eq native_value_s_eq unique_id_s_eq name_s_eq
      split: sum.splits option.splits prod.splits)

subsection \<open>The factory functions\<close>

text \<open>
  A factory function in state-passing form returns what the factory function as a function
  of the state returns, and the state it returns differs from the one it was given in the
  local list only.
\<close>

lemma fold_local_sensors:
  assumes "\<And>x st. f_s x st = st\<lparr>local_sensors := f x (local_sensors st)\<rparr>"
  shows "fold f_s xs st = st\<lparr>local_sensors := fold f xs (local_sensors st)\<rparr>"
  by (induction xs arbitrary: st) (simp_all add: assms)

lemma device_loop_s_eq:
  "device_loop_s index p st = st\<lparr>local_sensors := device_loop index p (local_sensors st)\<rparr>"
  by (cases p) (simp add: device_loop_s_def device_loop_def append_sensor_def)

lemma zone_loop_s_eq:
  "zone_loop_s index p st = st\<lparr>local_sensors := zone_loop index p (local_sensors st)\<rparr>"
  by (cases p) (simp add: zone_loop_s_def zone_loop_def append_sensor_def Let_def)

lemma circuit_loop_s_eq:
  "circuit_loop_s index p st = st\<lparr>local_sensors := circuit_loop index p (local_sensors st)\<rparr>"
  by (cases p) (simp add: circuit_loop_s_def circuit_loop_def append_sensor_def Let_def)

lemma dhw_loop_s_eq:
  "dhw_loop_s index p st = st\<lparr>local_sensors := dhw_loop index p (local_sensors st)\<rparr>"
  by (cases p) (simp add: dhw_loop_s_def dhw_loop_def append_sensor_def Let_def)

lemma system_loop_s_eq:
  "system_loop_s p st = st\<lparr>local_sensors := system_loop p (local_sensors st)\<rparr>"
  by (cases p)
    (simp add: system_loop_s_def system_loop_def append_sensor_def Let_def
      fold_local_sensors[of "device_loop_s i" "device_loop i" for i, OF device_loop_s_eq]
      fold_local_sensors[of "zone_loop_s i" "zone_loop i" for i, OF zone_loop_s_eq]
      fold_local_sensors[of "circuit_loop_s i" "circuit_loop i" for i, OF circuit_loop_s_eq]
      fold_local_sensors[of "dhw_loop_s i" "dhw_loop i" for i, OF dhw_loop_s_eq])

lemma create_system_sensors_s_eq:
  "create_system_sensors_s st =
     (Inr (create_system_sensors st),
      case system_coordinator_data st of
        None \<Rightarrow> st
      | Some data \<Rightarrow> if data = [] then st else st\<lparr>local_sensors := create_system_sensors st\<rparr>)"
  by (simp add: create_system_sensors_s_def create_system_sensors_def Let_def
      fold_local_sensors[of system_loop_s system_loop, OF system_loop_s_eq]
      split: option.splits)

lemma DataSensor_init_cong:
  assumes "daily_data_coordinator_data h1 = daily_data_coordinator_data h2"
  shows "DataSensor_init u h1 = DataSensor_init u h2"
  by (intro ext) (simp add: DataSensor_init_def daily_properties_cong[OF assms])

lemma fold_s_local_sensors:
  assumes step: "\<And>x l.
      (\<exists>e l'. f x l = Inl e \<and> f_s x (st\<lparr>local_sensors := l\<rparr>) = (Inl e, st\<lparr>local_sensors := l'\<rparr>))
      \<or> (\<exists>r. f x l = Inr r \<and> f_s x (st\<lparr>local_sensors := l\<rparr>) = (Inr (), st\<lparr>local_sensors := r\<rparr>))"
  shows
    "(\<exists>e l'. fold_result f xs l = Inl e
        \<and> fold_s f_s xs (st\<lparr>local_sensors := l\<rparr>) = (Inl e, st\<lparr>local_sensors := l'\<rparr>))
     \<or> (\<exists>r. fold_result f xs l = Inr r
        \<and> fold_s f_s xs (st\<lparr>local_sensors := l\<rparr>) = (Inr (), st\<lparr>local_sensors := r\<rparr>))"
proof (induction xs arbitrary: l)
  case Nil
  show ?case by simp
next
  case (Cons x xs)
  from step[of x l] show ?case
  proof (elim disjE exE conjE)
    fix e l'
    assume "f x l = Inl e"
      and "f_s x (st\<lparr>local_sensors := l\<rparr>) = (Inl e, st\<lparr>local_sensors := l'\<rparr>)"
    then show ?thesis by (auto simp add: bind_s_ret result_bind_def)
  next
    fix r
    assume "f x l = Inr r"
      and "f_s x (st\<lparr>local_sensors := l\<rparr>) = (Inr (), st\<lparr>local_sensors := r\<rparr>)"
    with Cons.IH[of r] show ?thesis by (auto simp add: bind_s_ret result_bind_def)
  qed
qed

lemma data_loop_s_local_sensors:
  "(\<exists>e l'. data_loop u st system_id de_index p l = Inl e
      \<and> data_loop_s u system_id de_index p (st\<lparr>local_sensors := l\<rparr>)
          = (Inl e, st\<lparr>local_sensors := l'\<rparr>))
   \<or> (\<exists>r. data_loop u st system_id de_index p l = Inr r
      \<and> data_loop_s u system_id de_index p (st\<lparr>local_sensors := l\<rparr>)
          = (Inr (), st\<lparr>local_sensors := r\<rparr>))"
proof -
  have c: "DataSensor_init u (st\<lparr>local_sensors := l\<rparr>) = DataSensor_init u st"
    by (rule DataSensor_init_cong) simp
  show ?thesis
    by (cases p)
      (auto simp add: data_loop_s_def data_loop_def DataSensor_init_s_eq bind_s_ret c
        result_bind_def append_sensor_def split: sum.splits)
qed

lemma devices_data_loop_s_local_sensors:
  "(\<exists>e l'. devices_data_loop u st system_id p l = Inl e
      \<and> devices_data_loop_s u system_id p (st\<lparr>local_sensors := l\<rparr>)
          = (Inl e, st\<lparr>local_sensors := l'\<rparr>))
   \<or> (\<exists>r. devices_data_loop u st system_id p l = Inr r
      \<and> devices_data_loop_s u system_id p (st\<lparr>local_sensors := l\<rparr>)
          = (Inr (), st\<lparr>local_sensors := r\<rparr>))"
proof (cases p)
  case (Pair de_index device_datas)
  have c: "daily_data_getitem (st\<lparr>local_sensors := k\<rparr>) = daily_data_getitem st" for k
    by (rule daily_cong) simp
  note inner = fold_s_local_sensors[of "data_loop u st system_id de_index"
      "data_loop_s u system_id de_index" st, OF data_loop_s_local_sensors]
  show ?thesis
  proof (cases "length device_datas = 0")
    case True
    with Pair show ?thesis
      by (simp add: devices_data_loop_s_def devices_data_loop_def)
  next
    case False
    show ?thesis
    proof (cases "daily_data_getitem st system_id")
      case (Inl e)
      with Pair False show ?thesis
        by (auto simp add: devices_data_loop_s_def devices_data_loop_def Let_def
            append_sensor_def daily_data_getitem_s_eq c bind_s_ret result_bind_def)
    next
      case sd: (Inr sd)
      show ?thesis
      proof (cases "list_getitem (devices_data sd) de_index")
        case (Inl e)
        with Pair False sd show ?thesis
          by (auto simp add: devices_data_loop_s_def devices_data_loop_def Let_def
              append_sensor_def daily_data_getitem_s_eq c bind_s_ret result_bind_def)
      next
        case (Inr row)
        with Pair False sd
          inner[of "enumerate 0 row" "l @ [EfficiencySensor system_id (Some de_index)]"]
        show ?thesis
          by (simp add: devices_data_loop_s_def devices_data_loop_def Let_def append_sensor_def
              daily_data_getitem_s_eq c bind_s_ret result_bind_def)
      qed
    qed
  qed
qed

lemma daily_system_loop_s_local_sensors:
  "(\<exists>e l'. daily_system_loop u st p l = Inl e
      \<and> daily_system_loop_s u p (st\<lparr>local_sensors := l\<rparr>) = (Inl e, st\<lparr>local_sensors := l'\<rparr>))
   \<or> (\<exists>r. daily_system_loop u st p l = Inr r
      \<and> daily_system_loop_s u p (st\<lparr>local_sensors := l\<rparr>) = (Inr (), st\<lparr>local_sensors := r\<rparr>))"
proof (cases p)
  case (Pair system_id system_devices)
  note inner = fold_s_local_sensors[of "devices_data_loop u st system_id"
      "devices_data_loop_s u system_id" st, OF devices_data_loop_s_local_sensors]
  from Pair inner[of "enumerate 0 (devices_data system_devices)"
      "l @ [EfficiencySensor system_id None]"]
  show ?thesis
    by (simp add: daily_system_loop_s_def daily_system_loop_def Let_def append_sensor_def)
qed

lemma create_daily_data_sensors_s_eq:
  "\<exists>l. create_daily_data_sensors_s u st =
         (create_daily_data_sensors u st, st\<lparr>local_sensors := l\<rparr>)"
proof (cases "daily_data_coordinator_data st")
  case None
  then have "create_daily_data_sensors_s u st =
      (create_daily_data_sensors u st, st\<lparr>local_sensors := local_sensors st\<rparr>)"
    by (simp add: create_daily_data_sensors_s_def create_daily_data_sensors_def)
  then show ?thesis by (rule exI)
next
  case (Some data)
  show ?thesis
  proof (cases "data = []")
    case True
    with Some have "create_daily_data_sensors_s u st =
        (create_daily_data_sensors u st, st\<lparr>local_sensors := local_sensors st\<rparr>)"
      by (simp add: create_daily_data_sensors_s_def create_daily_data_sensors_def)
    then show ?thesis by (rule exI)
  next
    case False
    from fold_s_local_sensors[of "daily_system_loop u st" "daily_system_loop_s u" st data "[]",
        OF daily_system_loop_s_local_sensors]
    show ?thesis
    proof (elim disjE exE conjE)
      fix e l'
      assume "fold_result (daily_system_loop u st) data [] = Inl e"
        and "fold_s (daily_system_loop_s u) data (st\<lparr>local_sensors := []\<rparr>)
              = (Inl e, st\<lparr>local_sensors := l'\<rparr>)"
      with Some False have "create_daily_data_sensors_s u st =
          (create_daily_data_sensors u st, st\<lparr>local_sensors := l'\<rparr>)"
        by (simp add: create_daily_data_sensors_s_def create_daily_data_sensors_def Let_def
            bind_s_ret)
      then show ?thesis by (rule exI)
    next
      fix r
      assume "fold_result (daily_system_loop u st) data [] = Inr r"
        and "fold_s (daily_system_loop_s u) data (st\<lparr>local_sensors := []\<rparr>)
              = (Inr (), st\<lparr>local_sensors := r\<rparr>)"
      with Some False have "create_daily_data_sensors_s u st =
          (create_daily_data_sensors u st, st\<lparr>local_sensors := r\<rparr>)"
        by (simp add: create_daily_data_sensors_s_def create_daily_data_sensors_def Let_def
            bind_s_ret)
      then show ?thesis by (rule exI)
    qed
  qed
qed

section \<open>The coordinators' data is only read\<close>

text \<open>
  On the example state the daily data factory fills its local list and a property returns
  its value; the state they return is evaluated here.
\<close>

lemma example_create_daily_data_sensors_s:
  "create_daily_data_sensors_s example_utils example_state =
     (Inr [EfficiencySensor ''s1'' None, EfficiencySensor ''s1'' (Some 0),
           DataSensor ''s1'' 0 0 (Some ''Wh''), DataSensor ''s1'' 0 1 (Some ''Wh'')],
      example_state\<lparr>local_sensors :=
        [EfficiencySensor ''s1'' None, EfficiencySensor ''s1'' (Some 0),
         DataSensor ''s1'' 0 0 (Some ''Wh''), DataSensor ''s1'' 0 1 (Some ''Wh'')]\<rparr>)"
  by code_simp

lemma example_create_system_sensors_s:
  "create_system_sensors_s example_state =
     (Inr [SystemOutdoorTemperatureSensor 0, HomeEntity 0, DomesticHotWaterSetPointSensor 0 0,
           DomesticHotWaterOperationModeSensor 0 0,
           DomesticHotWaterCurrentSpecialFunctionSensor 0 0],
      example_state\<lparr>local_sensors :=
        [SystemOutdoorTemperatureSensor 0, HomeEntity 0, DomesticHotWaterSetPointSensor 0 0,
         DomesticHotWaterOperationModeSensor 0 0,
         DomesticHotWaterCurrentSpecialFunctionSensor 0 0]\<rparr>)"
  by code_simp

lemma example_unique_id_s:
  "fst (unique_id_s example_utils (HomeEntity 0) example_state)
     = Inr (Some ''mypyllant_s1_home'')"
  by code_simp

text \<open>
  C6. \<open>create_system_sensors\<close>, \<open>create_daily_data_sensors\<close> and the properties
  \<open>name\<close>, \<open>unique_id\<close>, \<open>native_value\<close>, \<open>device_info\<close> and
  \<open>extra_state_attributes\<close> of every sensor only read the coordinators' data. In
  state-passing form, where every read of \<open>coordinator.data\<close> is a step that returns the
  state and every \<open>sensors.append\<close> is a step that changes it: for every sensor and every
  state, each of the five properties returns the state it was given, whether it returns a
  value or raises; and for every state, the data of the system coordinator and the data of
  the daily data coordinator in the state that each of the two factory functions returns
  are what they were in the state it was given, whether it returns a list or raises.
\<close>

theorem coordinators_data_only_read:
  "snd (name_s u s h) = h
   \<and> snd (unique_id_s u s h) = h
   \<and> snd (native_value_s u s h) = h
   \<and> snd (device_info_s u s h) = h
   \<and> snd (extra_state_attributes_s s h) = h
   \<and> system_coordinator_data (snd (create_system_sensors_s st)) = system_coordinator_data st
   \<and> daily_data_coordinator_data (snd (create_system_sensors_s st))
       = daily_data_coordinator_data st
   \<and> system_coordinator_data (snd (create_daily_data_sensors_s u st))
       = system_coordinator_data st
   \<and> daily_data_coordinator_data (snd (create_daily_data_sensors_s u st))
       = daily_data_coordinator_data st"
proof -
  obtain l where d: "create_daily_data_sensors_s u st =
      (create_daily_data_sensors u st, st\<lparr>local_sensors := l\<rparr>)"
    using create_daily_data_sensors_s_eq[of u st] by blast
  have "system_coordinator_data (snd (create_system_sensors_s st)) = system_coordinator_data st"
    and "daily_data_coordinator_data (snd (create_system_sensors_s st))
       = daily_data_coordinator_data st"
    by (simp_all add: create_system_sensors_s_eq split: option.splits)
  moreover have "system_coordinator_data (snd (create_daily_data_sensors_s u st))
       = system_coordinator_data st"
    and "daily_data_coordinator_data (snd (create_daily_data_sensors_s u st))
       = daily_data_coordinator_data st"
    by (simp_all add: d)
  ultimately show ?thesis
    by (simp add: name_s_eq unique_id_s_eq native_value_s_eq device_info_s_eq
        extra_state_attributes_s_eq)
qed

theorem coordinators_data_only_read_witness:
  "snd (unique_id_s example_utils (HomeEntity 0) example_state) = example_state
   \<and> fst (unique_id_s example_utils (HomeEntity 0) example_state)
       = Inr (Some ''mypyllant_s1_home'')
   \<and> system_coordinator_data (snd (create_daily_data_sensors_s example_utils example_state))
       = system_coordinator_data example_state
   \<and> daily_data_coordinator_data (snd (create_daily_data_sensors_s example_utils example_state))
       = daily_data_coordinator_data example_state
   \<and> local_sensors (snd (create_daily_data_sensors_s example_utils example_state))
       \<noteq> local_sensors example_state
   \<and> daily_data_coordinator_data (snd (create_system_sensors_s example_state))
       = daily_data_coordinator_data example_state
   \<and> local_sensors (snd (create_system_sensors_s example_state))
       \<noteq> local_sensors example_state"
proof -
  note T = coordinators_data_only_read[of example_utils "HomeEntity 0" example_state
      example_state]
  have n: "local_sensors (snd (create_daily_data_sensors_s example_utils example_state))
       \<noteq> local_sensors example_state"
    unfolding example_create_daily_data_sensors_s by (simp add: example_state_def)
  have m: "local_sensors (snd (create_system_sensors_s example_state))
       \<noteq> local_sensors example_state"
    unfolding example_create_system_sensors_s by (simp add: example_state_def)
  from T have a: "snd (unique_id_s example_utils (HomeEntity 0) example_state) = example_state"
    and b: "system_coordinator_data
        (snd (create_daily_data_sensors_s example_utils example_state))
       = system_coordinator_data example_state"
    and c: "daily_data_coordinator_data
        (snd (create_daily_data_sensors_s example_utils example_state))
       = daily_data_coordinator_data example_state"
    and d: "daily_data_coordinator_data (snd (create_system_sensors_s example_state))
       = daily_data_coordinator_data example_state"
    by simp_all
  show ?thesis
    by (intro conjI a example_unique_id_s b c n d m)
qed

end
